theory Spec2Isabelle
  imports Complex_Main
begin

section \<open>Inversion calling in \<^verbatim>\<open>asmlib/inv.py\<close>\<close>

text \<open>
  A shallow embedding of \<^verbatim>\<open>scan_for_inv\<close>, \<^verbatim>\<open>annotate_inv_dup_mers\<close> and
  \<^verbatim>\<open>InvCall.__init__\<close>. The collaborators that the module calls but does not define
  (alignment lift, reference k-mer counts, contig k-mer stream, density smoothing, k-mer
  utility, chromosome lengths) are the fields of an environment record; every return, every
  raise and every early exit of the Python is a branch of the model.
\<close>

subsection \<open>Constants\<close>

definition INITIAL_EXPAND :: int where "INITIAL_EXPAND = 4000"
definition EXPAND_FACTOR :: rat where "EXPAND_FACTOR = 3 / 2"
definition MAX_REF_KMER_COUNT :: nat where "MAX_REF_KMER_COUNT = 100"
definition MIN_INV_KMER_RUN :: nat where "MIN_INV_KMER_RUN = 100"
definition MIN_TIG_REF_PROP :: rat where "MIN_TIG_REF_PROP = 6 / 10"
definition MIN_EXP_COUNT :: nat where "MIN_EXP_COUNT = 3"

text \<open>
  \<^verbatim>\<open>KMER_LOC_STATE[in-upstream, in-dnstream]\<close>: the 2x2 array
  \<^verbatim>\<open>[['NA', 'OTHER'], ['SAME', 'NA']]\<close>, indexed by \<^verbatim>\<open>int(bool)\<close>.
\<close>

definition KMER_LOC_STATE :: "bool \<Rightarrow> bool \<Rightarrow> string" where
  "KMER_LOC_STATE a b =
     (if a then (if b then ''NA'' else ''SAME'') else (if b then ''OTHER'' else ''NA''))"

subsection \<open>Data\<close>

type_synonym kmer = nat

text \<open>
  The k-mer states of the density table: the source's integers 0 (fwd), 1 (fwd-rev) and
  2 (rev), in that order.
\<close>

datatype kstate = FWD | FWDREV | REV

text \<open>
  Modelled from the spec: \<^verbatim>\<open>asmlib.seq.Region\<close>, which is not part of the module: a
  half-open interval \<open>[pos, end)\<close> on a chromosome, of length \<open>end - pos\<close>. The Python
  attribute \<^verbatim>\<open>end\<close> is the field \<open>endp\<close>.
\<close>

record region =
  chrom :: string
  pos :: int
  endp :: int
  is_rev :: bool

definition Region :: "string \<Rightarrow> int \<Rightarrow> int \<Rightarrow> region" where
  "Region c p e = \<lparr>chrom = c, pos = p, endp = e, is_rev = False\<rparr>"

definition region_len :: "region \<Rightarrow> int" where
  "region_len r = endp r - pos r"

definition trunc :: "rat \<Rightarrow> int" where
  "trunc x = (if 0 \<le> x then \<lfloor>x\<rfloor> else \<lceil>x\<rceil>)"

text \<open>
  Modelled from the spec: \<^verbatim>\<open>Region.expand(expand_bp, min_pos, max_end, shift, balance)\<close>,
  which is not part of the module. The interval grows by \<open>expand_bp\<close>, the fraction
  \<open>balance\<close> of it upstream and the rest downstream, and is clamped at \<open>min_pos\<close> and
  at \<open>max_end\<close>. With \<open>shift\<close>, growth cut off at one boundary moves to the other end
  (the spec is silent on this flag; every lemma about \<open>expand\<close> below holds for both
  of its values).
\<close>

definition expand :: "region \<Rightarrow> int \<Rightarrow> int \<Rightarrow> int \<Rightarrow> bool \<Rightarrow> rat \<Rightarrow> region" where
  "expand r expand_bp min_pos max_end shift balance =
     (let expand_pos = trunc (of_int expand_bp * balance);
          expand_end = expand_bp - expand_pos;
          p1 = pos r - expand_pos;
          e1 = endp r + expand_end;
          e2 = (if p1 < min_pos \<and> shift then e1 + (min_pos - p1) else e1);
          p2 = (if p1 < min_pos then min_pos else p1);
          p3 = (if e2 > max_end \<and> shift then max min_pos (p2 - (e2 - max_end)) else p2);
          e3 = (if e2 > max_end then max_end else e2)
      in r\<lparr>pos := p3, endp := e3\<rparr>)"

text \<open>
  \<^verbatim>\<open>np.int32(x)\<close> of a float: truncation towards zero, and outside the 32-bit range the
  wrap-around modulo \<open>2 ^ 32\<close> into \<open>[- 2 ^ 31, 2 ^ 31)\<close> of numpy 1.x, so that
  \<^verbatim>\<open>np.int32(1431655766 * 1.5)\<close> is \<open>- 2147483647\<close> (numpy 2.x raises
  \<^verbatim>\<open>OverflowError\<close> there instead).
\<close>

definition np_int32 :: "rat \<Rightarrow> int" where
  "np_int32 x = (trunc x + 2 ^ 31) mod 2 ^ 32 - 2 ^ 31"

text \<open>One row of the k-mer density table (a pandas data frame, as a list of rows).\<close>

record row =
  KMER :: kmer
  INDEX :: int
  STATE :: kstate
  KERN_FWD :: rat
  KERN_FWDREV :: rat
  KERN_REV :: rat

text \<open>
  A row after \<^verbatim>\<open>annotate_inv_dup_mers\<close>: the columns \<^verbatim>\<open>FLANK\<close> and \<^verbatim>\<open>MATCH\<close> are
  added, \<^verbatim>\<open>np.nan\<close> being \<open>None\<close>.
\<close>

record arow = row +
  FLANK :: "string option"
  MATCH :: "string option"

text \<open>A run-length record \<^verbatim>\<open>(state, count, pos, end)\<close>, read by index in the source.\<close>

type_synonym rl_record = "kstate \<times> nat \<times> int \<times> int"

definition rl_state :: "rl_record \<Rightarrow> kstate" where "rl_state rec = fst rec"
definition rl_count :: "rl_record \<Rightarrow> nat" where "rl_count rec = fst (snd rec)"
definition rl_pos :: "rl_record \<Rightarrow> int" where "rl_pos rec = fst (snd (snd rec))"
definition rl_end :: "rl_record \<Rightarrow> int" where "rl_end rec = snd (snd (snd rec))"

text \<open>
  Modelled from the spec: \<^verbatim>\<open>asmlib.density.rl_encoder\<close>, which is not part of the
  module: the run-length segments \<open>(state, run_length, start_index, end_index)\<close> of the
  \<^verbatim>\<open>STATE\<close> column, in table order, the indices being the \<^verbatim>\<open>INDEX\<close> values of the
  first and the last row of the run.
\<close>

fun rl_run :: "kstate \<Rightarrow> nat \<Rightarrow> int \<Rightarrow> int \<Rightarrow> ('a row_scheme) list \<Rightarrow> rl_record list" where
  "rl_run s c p e [] = [(s, c, p, e)]"
| "rl_run s c p e (r # rs) =
     (if STATE r = s then rl_run s (c + 1) p (INDEX r) rs
      else (s, c, p, e) # rl_run (STATE r) 1 (INDEX r) (INDEX r) rs)"

fun rl_encoder :: "('a row_scheme) list \<Rightarrow> rl_record list" where
  "rl_encoder [] = []"
| "rl_encoder (r # rs) = rl_run (STATE r) 1 (INDEX r) (INDEX r) rs"

text \<open>
  The collaborators. \<open>tig_mer_stream\<close> is \<^verbatim>\<open>asmlib.seq.region_seq\<close> followed by
  \<^verbatim>\<open>kanapy.util.kmer.stream(..., index=True)\<close>; \<open>ref_kmers\<close> returns a dictionary
  (an association list here) or \<^verbatim>\<open>None\<close>; \<open>df_fai\<close> is the table of chromosome lengths.
\<close>

record env =
  df_fai :: "string \<Rightarrow> int"
  lift_region_to_qry :: "region \<Rightarrow> region option"
  lift_region_to_sub :: "region \<Rightarrow> region option"
  ref_kmers :: "region \<Rightarrow> (kmer \<times> nat) list option"
  tig_mer_stream :: "region \<Rightarrow> bool \<Rightarrow> (kmer \<times> nat) list"
  get_smoothed_density :: "(kmer \<times> nat) list \<Rightarrow> kmer set \<Rightarrow> row list"
  canonical_complement :: "kmer \<Rightarrow> kmer"
  k_size :: int

datatype error = RuntimeError | TypeError | AttributeError | IndexError

subsection \<open>\<^verbatim>\<open>InvCall\<close>\<close>

record inv_call =
  region_ref_outer :: region
  region_ref_inner :: region
  region_tig_outer :: region
  region_tig_inner :: region
  region_ref_discovery :: region
  region_tig_discovery :: region
  region_flag :: region
  df :: "arow list"
  svlen :: int
  inv_id :: string
  max_inv_den_diff :: "rat option"

text \<open>Decimal printing of integers, as \<^verbatim>\<open>str.format\<close> does for \<^verbatim>\<open>{}\<close>.\<close>

fun str_nat :: "nat \<Rightarrow> string" where
  "str_nat n =
     (if n < 10 then [''0123456789'' ! n]
      else str_nat (n div 10) @ [''0123456789'' ! (n mod 10)])"

declare str_nat.simps [simp del]

definition str_int :: "int \<Rightarrow> string" where
  "str_int i = (if i < 0 then ''-'' @ str_nat (nat (- i)) else str_nat (nat i))"

text \<open>
  \<^verbatim>\<open>np.max\<close> of a sequence; there is no maximum of an empty one (\<open>None\<close>).
\<close>

fun np_max :: "rat list \<Rightarrow> rat option" where
  "np_max [] = None"
| "np_max (x # xs) = Some (fold max xs x)"

text \<open>
  The series \<^verbatim>\<open>df.loc[df['STATE'] == 2, 'KERN_REV'] - df.loc[df['STATE'] == 2,
  ['KERN_FWD', 'KERN_FWDREV']].apply(np.max, axis=1)\<close>.
\<close>

definition inv_den_diff :: "('a row_scheme) list \<Rightarrow> rat list" where
  "inv_den_diff d =
     map (\<lambda>r. KERN_REV r - max (KERN_FWD r) (KERN_FWDREV r)) (filter (\<lambda>r. STATE r = REV) d)"

definition InvCall ::
  "region \<Rightarrow> region \<Rightarrow> region \<Rightarrow> region \<Rightarrow> region \<Rightarrow> region \<Rightarrow> region \<Rightarrow> arow list \<Rightarrow> inv_call"
where
  "InvCall ref_outer ref_inner tig_outer tig_inner ref_discovery tig_discovery flag d =
     (let len = region_len ref_outer in
      \<lparr>region_ref_outer = ref_outer, region_ref_inner = ref_inner,
       region_tig_outer = tig_outer, region_tig_inner = tig_inner,
       region_ref_discovery = ref_discovery, region_tig_discovery = tig_discovery,
       region_flag = flag, df = d,
       svlen = len,
       inv_id = chrom ref_outer @ ''-'' @ str_int (pos ref_outer + 1) @ ''-INV-'' @ str_int len,
       max_inv_den_diff = np_max (inv_den_diff d)\<rparr>)"

subsection \<open>\<^verbatim>\<open>annotate_inv_dup_mers\<close>\<close>

text \<open>
  The per-row part of the annotation: the working columns \<^verbatim>\<open>KMER_CAN\<close> and
  \<^verbatim>\<open>TIG_INDEX\<close>, then \<^verbatim>\<open>FLANK\<close> (\<^verbatim>\<open>'UP'\<close> is assigned first and \<^verbatim>\<open>'DN'\<close> second, so
  \<^verbatim>\<open>'DN'\<close> wins where both windows hold the row), then \<^verbatim>\<open>MATCH\<close>, where \<^verbatim>\<open>'NA'\<close>
  becomes \<^verbatim>\<open>np.nan\<close>. The working columns are deleted: the result has neither.
\<close>

definition annotate_row ::
  "env \<Rightarrow> kmer set \<Rightarrow> kmer set \<Rightarrow> region \<Rightarrow> region \<Rightarrow> region \<Rightarrow> row \<Rightarrow> arow"
where
  "annotate_row e ref_set_up ref_set_dn region_dup_tig_up region_dup_tig_dn discovery_tig r =
     (let KMER_CAN = canonical_complement e (KMER r);
          TIG_INDEX = INDEX r + pos discovery_tig;
          in_up = (TIG_INDEX \<ge> pos region_dup_tig_up
                     \<and> TIG_INDEX < endp region_dup_tig_up - k_size e);
          in_dn = (TIG_INDEX \<ge> pos region_dup_tig_dn
                     \<and> TIG_INDEX < endp region_dup_tig_dn - k_size e);
          flank = (if in_dn then Some ''DN'' else if in_up then Some ''UP'' else None);
          match = (if flank = Some ''UP''
                     then Some (KMER_LOC_STATE (KMER r \<in> ref_set_up) (KMER r \<in> ref_set_dn))
                   else if flank = Some ''DN''
                     then Some (KMER_LOC_STATE (KMER r \<in> ref_set_dn) (KMER r \<in> ref_set_up))
                   else None)
      in \<lparr>KMER = KMER r, INDEX = INDEX r, STATE = STATE r,
          KERN_FWD = KERN_FWD r, KERN_FWDREV = KERN_FWDREV r, KERN_REV = KERN_REV r,
          FLANK = flank,
          MATCH = (case match of None \<Rightarrow> None
                   | Some val \<Rightarrow> if val \<noteq> ''NA'' then Some val else None)\<rparr>)"

text \<open>
  \<^verbatim>\<open>ref_kmers(...).keys()\<close> raises \<^verbatim>\<open>AttributeError\<close> when \<^verbatim>\<open>ref_kmers\<close> returns
  \<^verbatim>\<open>None\<close>.
\<close>

definition annotate_inv_dup_mers ::
  "env \<Rightarrow> row list \<Rightarrow> region \<Rightarrow> region \<Rightarrow> region \<Rightarrow> region \<Rightarrow> region \<Rightarrow> error + arow list"
where
  "annotate_inv_dup_mers e d ref_outer ref_inner tig_outer tig_inner discovery_tig =
     (let region_dup_ref_up = Region (chrom ref_outer) (pos ref_outer) (pos ref_inner);
          region_dup_ref_dn = Region (chrom ref_outer) (endp ref_inner) (endp ref_outer);
          region_dup_tig_up = Region (chrom tig_outer) (pos tig_outer) (pos tig_inner);
          region_dup_tig_dn = Region (chrom tig_outer) (endp tig_inner) (endp tig_outer)
      in case ref_kmers e region_dup_ref_up of
           None \<Rightarrow> Inl AttributeError
         | Some count_up \<Rightarrow>
             (case ref_kmers e region_dup_ref_dn of
                None \<Rightarrow> Inl AttributeError
              | Some count_dn \<Rightarrow>
                  (let ref_set_up = canonical_complement e ` set (map fst count_up);
                       ref_set_dn = canonical_complement e ` set (map fst count_dn)
                   in Inr (map (annotate_row e ref_set_up ref_set_dn
                                  region_dup_tig_up region_dup_tig_dn discovery_tig) d))))"

subsection \<open>\<^verbatim>\<open>scan_for_inv\<close>\<close>

text \<open>
  The decision of one iteration on the run-length records (the two \<^verbatim>\<open>if\<close>s before
  \<^verbatim>\<open># Expand\<close>): give up, leave the loop, or expand.
\<close>

datatype decision = ABANDONED | FOUND | EXPAND

definition decide :: "rl_record list \<Rightarrow> nat \<Rightarrow> decision" where
  "decide state_rl expansion_count =
     (let condensed_states = map rl_state state_rl in
      if length state_rl = 1 \<and> rl_state (state_rl ! 0) = FWD \<and> expansion_count \<ge> MIN_EXP_COUNT
        then ABANDONED
      else if length condensed_states > 2 \<and> condensed_states ! 0 = FWD
                \<and> last condensed_states = FWD
        then FOUND
      else EXPAND)"

text \<open>The \<^verbatim>\<open>balance\<close> argument of the call of \<^verbatim>\<open>region_ref.expand\<close> that is taken.\<close>

definition expand_balance :: "kstate list \<Rightarrow> rat" where
  "expand_balance condensed_states =
     (if length condensed_states > 2 then
        (if condensed_states ! 0 = FWD then 25 / 100
         else if last condensed_states = FWD then 75 / 100
         else 5 / 10)
      else 5 / 10)"

definition expand_region :: "env \<Rightarrow> region \<Rightarrow> kstate list \<Rightarrow> region" where
  "expand_region e region_ref condensed_states =
     (let expand_bp = np_int32 (of_int (region_len region_ref) * EXPAND_FACTOR)
      in expand region_ref expand_bp 0 (df_fai e (chrom region_ref)) True
           (expand_balance condensed_states))"

text \<open>
  The outcome of one iteration of \<^verbatim>\<open>while True\<close>: a \<^verbatim>\<open>return\<close>, the \<^verbatim>\<open>break\<close> (with
  the contig region, the table and its run-length records), or the next iteration with the
  expanded region and the expansion count.
\<close>

datatype iteration =
    Return "error + inv_call option"
  | Break region "row list" "rl_record list"
  | Next region nat

definition scan_iter :: "env \<Rightarrow> region \<Rightarrow> region \<Rightarrow> nat \<Rightarrow> iteration" where
  "scan_iter e region region_ref count0 =
     (case lift_region_to_qry e region_ref of
        None \<Rightarrow> Return (Inr None)
      | Some region_tig \<Rightarrow>
          (let expansion_count = count0 + 1 in
           case ref_kmers e region_ref of
             None \<Rightarrow> Return (Inr None)
           | Some ref_kmer_count \<Rightarrow>
               if ref_kmer_count = [] then Return (Inr None)
               else if Max (set (map snd ref_kmer_count)) > MAX_REF_KMER_COUNT
                 then Return (Inr None)
               else
                 (let ref_kmer_set = set (map fst ref_kmer_count);
                      d = get_smoothed_density e
                            (tig_mer_stream e region_tig (is_rev region)) ref_kmer_set
                  in if d \<noteq> [] then
                       (let state_rl = rl_encoder d in
                        case decide state_rl expansion_count of
                          ABANDONED \<Rightarrow> Return (Inr None)
                        | FOUND \<Rightarrow> Break region_tig d state_rl
                        | EXPAND \<Rightarrow>
                            (let last_len = region_len region_ref;
                                 region_ref' = expand_region e region_ref (map rl_state state_rl)
                             in if region_len region_ref' = last_len then Return (Inr None)
                                else Next region_ref' expansion_count))
                     else Return (Inr None))))"

text \<open>
  The code after the loop (\<^verbatim>\<open>## Characterize found region ##\<close>). \<^verbatim>\<open>len(None)\<close> raises
  \<^verbatim>\<open>TypeError\<close> when the outer region cannot be lifted back;
  \<^verbatim>\<open>region_ref_inner.pos\<close> raises \<^verbatim>\<open>AttributeError\<close> in the annotation when the
  inner one cannot. The two contig regions are the calls of \<^verbatim>\<open>asmlib.seq.Region\<close>
  on \<^verbatim>\<open>state_rl[1][2]\<close>, \<^verbatim>\<open>state_rl[-2][3]\<close>, \<^verbatim>\<open>state_rl_inv[0][2]\<close> and
  \<^verbatim>\<open>state_rl_inv[-1][3]\<close>. The annotation is called with \<^verbatim>\<open>region_ref\<close> as its argument
  \<^verbatim>\<open>region_tig_discovery\<close>.
\<close>

definition tig_outer_of :: "env \<Rightarrow> region \<Rightarrow> rl_record list \<Rightarrow> region" where
  "tig_outer_of e region_tig state_rl =
     Region (chrom region_tig)
       (rl_pos (state_rl ! 1) + pos region_tig)
       (rl_end (state_rl ! (length state_rl - 2)) + pos region_tig + k_size e)"

definition tig_inner_of :: "env \<Rightarrow> region \<Rightarrow> rl_record list \<Rightarrow> region" where
  "tig_inner_of e region_tig state_rl =
     (let state_rl_inv = filter (\<lambda>rec. rl_state rec = REV) state_rl
      in Region (chrom region_tig)
           (rl_pos (hd state_rl_inv) + pos region_tig)
           (rl_end (last state_rl_inv) + pos region_tig + k_size e))"

definition characterize ::
  "env \<Rightarrow> region \<Rightarrow> region \<Rightarrow> region \<Rightarrow> row list \<Rightarrow> rl_record list \<Rightarrow> error + inv_call option"
where
  "characterize e flag region_ref region_tig d state_rl =
     (if \<not> list_ex (\<lambda>rec. rl_state rec = REV) state_rl then Inr None
      else
        (let max_inv_run = Max (set (map rl_count (filter (\<lambda>rec. rl_state rec = REV) state_rl)))
         in if max_inv_run < MIN_INV_KMER_RUN then Inr None
            else if rl_state (hd state_rl) \<noteq> FWD \<or> rl_state (last state_rl) \<noteq> FWD
              then Inl RuntimeError
            else if length state_rl < 2 then Inl IndexError
            else
              (let tig_outer = tig_outer_of e region_tig state_rl;
                   tig_inner = tig_inner_of e region_tig state_rl
               in case lift_region_to_sub e tig_outer of
                    None \<Rightarrow> Inl TypeError
                  | Some ref_outer \<Rightarrow>
                      if of_int (region_len ref_outer)
                           < of_int (region_len tig_outer) * MIN_TIG_REF_PROP then Inr None
                      else if of_int (region_len tig_outer)
                           < of_int (region_len ref_outer) * MIN_TIG_REF_PROP then Inr None
                      else
                        (case lift_region_to_sub e tig_inner of
                           None \<Rightarrow> Inl AttributeError
                         | Some ref_inner \<Rightarrow>
                             (case annotate_inv_dup_mers e d ref_outer ref_inner
                                     tig_outer tig_inner region_ref of
                                Inl err \<Rightarrow> Inl err
                              | Inr d' \<Rightarrow>
                                  Inr (Some (InvCall ref_outer ref_inner tig_outer tig_inner
                                               region_ref region_tig flag d')))))))"

text \<open>
  The loop. It returns \<open>Some\<close> of the function's result when the Python returns or raises,
  and is \<open>None\<close> when the Python would loop forever.
\<close>

partial_function (option) scan_loop ::
  "env \<Rightarrow> region \<Rightarrow> region \<Rightarrow> nat \<Rightarrow> (error + inv_call option) option"
where
  "scan_loop e region region_ref expansion_count =
     (case scan_iter e region region_ref expansion_count of
        Return res \<Rightarrow> Some res
      | Break region_tig d state_rl \<Rightarrow>
          Some (characterize e region region_ref region_tig d state_rl)
      | Next region_ref' expansion_count' \<Rightarrow> scan_loop e region region_ref' expansion_count')"

declare scan_loop.simps [code]

definition scan_for_inv :: "env \<Rightarrow> region \<Rightarrow> (error + inv_call option) option" where
  "scan_for_inv e region =
     (let flag = region;
          region_ref = expand region INITIAL_EXPAND 0 (df_fai e (chrom region)) True (5 / 10)
      in scan_loop e flag region_ref 0)"

subsection \<open>Example inputs\<close>

text \<open>
  A contig region whose table of 2100 informative k-mers has the runs FWD (700 k-mers),
  FWDREV (100), REV (500), FWDREV (100), FWD (700): a
  flagged region \<open>chr1:10000-11000\<close> on a chromosome of 100000 bp, contig coordinates
  7000 below the reference ones, k-mers of size 31 and \<open>k + 1000\<close> as the reverse complement
  of the k-mer \<open>k < 1000\<close>.
\<close>

definition mk_row :: "kmer \<Rightarrow> int \<Rightarrow> kstate \<Rightarrow> row" where
  "mk_row k i s =
     \<lparr>KMER = k, INDEX = i, STATE = s,
      KERN_FWD = (if s = FWD then 8 / 10 else 1 / 10),
      KERN_FWDREV = (if s = FWDREV then 7 / 10 else 2 / 10),
      KERN_REV = (if s = REV then 9 / 10 else 1 / 10)\<rparr>"

text \<open>The rows of one run: \<open>n\<close> k-mers of state \<open>s\<close> at the contig indices \<open>i, i + 1, \<dots>\<close>.\<close>

fun run_rows :: "kstate \<Rightarrow> int \<Rightarrow> nat \<Rightarrow> row list" where
  "run_rows s i 0 = []"
| "run_rows s i (Suc n) = mk_row (nat i) i s # run_rows s (i + 1) n"

definition example_table :: "row list" where
  "example_table =
     run_rows FWD 0 700 @ run_rows FWDREV 700 100 @ run_rows REV 800 500
       @ run_rows FWDREV 1300 100 @ run_rows FWD 1400 700"

definition example_env :: env where
  "example_env =
     \<lparr>df_fai = (\<lambda>c. 100000),
      lift_region_to_qry = (\<lambda>r. Some (Region ''tig1'' (pos r - 7000) (endp r - 7000))),
      lift_region_to_sub = (\<lambda>r. Some (Region ''chr1'' (pos r + 7000) (endp r + 7000))),
      ref_kmers = (\<lambda>r. if pos r < 9000 then Some [(5, 1), (6, 2)] else Some [(6, 2), (8, 1)]),
      tig_mer_stream = (\<lambda>r b. []),
      get_smoothed_density = (\<lambda>s k. example_table),
      canonical_complement = (\<lambda>k. if k \<ge> 1000 then k - 1000 else k),
      k_size = 31\<rparr>"

definition example_region :: region where
  "example_region = Region ''chr1'' 10000 11000"

text \<open>A small annotated table, for the derived fields of a call.\<close>

definition example_arows :: "arow list" where
  "example_arows =
     [\<lparr>KMER = 7, INDEX = 0, STATE = FWD, KERN_FWD = 8 / 10, KERN_FWDREV = 1 / 10,
       KERN_REV = 1 / 10, FLANK = None, MATCH = None\<rparr>,
      \<lparr>KMER = 60, INDEX = 60, STATE = REV, KERN_FWD = 1 / 10, KERN_FWDREV = 2 / 10,
       KERN_REV = 9 / 10, FLANK = None, MATCH = None\<rparr>,
      \<lparr>KMER = 61, INDEX = 61, STATE = REV, KERN_FWD = 3 / 10, KERN_FWDREV = 1 / 10,
       KERN_REV = 6 / 10, FLANK = None, MATCH = None\<rparr>]"

text \<open>The call that the scan of the example returns.\<close>

definition example_call :: inv_call where
  "example_call =
     InvCall (Region ''chr1'' 8700 9430) (Region ''chr1'' 8800 9330)
       (Region ''tig1'' 1700 2430) (Region ''tig1'' 1800 2330)
       (Region ''chr1'' 8000 13000) (Region ''tig1'' 1000 6000) example_region
       (map (annotate_row example_env {5, 6} {6, 8}
               (Region ''tig1'' 1700 1800) (Region ''tig1'' 2330 2430)
               (Region ''chr1'' 8000 13000)) example_table)"

text \<open>
  Variations: a lift back to the reference that yields 100 bp for every contig region; a
  table with the single run FWD (2000 k-mers); a chromosome of 5000 bp; tables with no REV
  run and with a REV run of 50 k-mers.
\<close>

definition short_lift_env :: env where
  "short_lift_env =
     example_env\<lparr>lift_region_to_sub := (\<lambda>r. Some (Region ''chr1'' (pos r + 7000) (pos r + 7100)))\<rparr>"

definition fwd_table :: "row list" where
  "fwd_table = run_rows FWD 0 2000"

definition fwd_env :: env where
  "fwd_env = example_env\<lparr>get_smoothed_density := (\<lambda>s k. fwd_table)\<rparr>"

definition whole_chrom_env :: env where
  "whole_chrom_env =
     fwd_env\<lparr>df_fai := (\<lambda>c. 5000),
             lift_region_to_qry := (\<lambda>r. Some (Region ''tig1'' (pos r) (endp r)))\<rparr>"

definition no_rev_table :: "row list" where
  "no_rev_table = run_rows FWD 0 900 @ run_rows FWDREV 900 200 @ run_rows FWD 1100 900"

definition short_rev_table :: "row list" where
  "short_rev_table = run_rows FWD 0 1000 @ run_rows REV 1000 50 @ run_rows FWD 1050 1000"


definition no_sub_lift_env :: env where
  "no_sub_lift_env = example_env\<lparr>lift_region_to_sub := (\<lambda>r. None)\<rparr>"

definition no_inner_lift_env :: env where
  "no_inner_lift_env =
     example_env\<lparr>lift_region_to_sub :=
       (\<lambda>r. if pos r = 1700 then Some (Region ''chr1'' 8700 9430) else None)\<rparr>"

section \<open>Properties\<close>

subsection \<open>The loop and its exits\<close>

lemma scan_iter_Return:
  "scan_iter e region r c = Return res \<Longrightarrow> res = Inr None"
  by (auto simp: scan_iter_def Let_def split: option.splits if_splits decision.splits)

lemma scan_iter_Break:
  assumes "scan_iter e region r c = Break tig d rl"
  shows "lift_region_to_qry e r = Some tig \<and> d \<noteq> [] \<and> rl = rl_encoder d
           \<and> decide rl (c + 1) = FOUND"
  using assms
  by (auto simp: scan_iter_def Let_def split: option.splits if_splits decision.splits)


lemma scan_loop_Some:
  assumes "scan_loop e region r c = Some res"
  shows "(\<exists>r' c'. scan_iter e region r' c' = Return res)
       \<or> (\<exists>r' c' tig d rl. scan_iter e region r' c' = Break tig d rl
              \<and> res = characterize e region r' tig d rl)"
proof -
  let ?P = "\<lambda>e region (r::region) (c::nat) res. (\<exists>r' c'. scan_iter e region r' c' = Return res)
       \<or> (\<exists>r' c' tig d rl. scan_iter e region r' c' = Break tig d rl
              \<and> res = characterize e region r' tig d rl)"
  have "?P e region r c res"
  proof (rule scan_loop.raw_induct [where P = ?P, OF _ assms])
    fix loop e region r c res
    assume IH: "\<And>e region r c res. loop e region r c = Some res \<Longrightarrow> ?P e region r c res"
      and body: "(case scan_iter e region r c of
          Return res \<Rightarrow> Some res
        | Break region_tig d state_rl \<Rightarrow> Some (characterize e region r region_tig d state_rl)
        | Next region_ref' expansion_count' \<Rightarrow> loop e region region_ref' expansion_count') = Some res"
    show "?P e region r c res"
    proof (cases "scan_iter e region r c")
      case (Return x)
      with body have "x = res" by simp
      with Return show ?thesis by blast
    next
      case (Break tig d rl)
      with body have "res = characterize e region r tig d rl" by simp
      with Break show ?thesis by blast
    next
      case (Next r' c')
      with body have "loop e region r' c' = Some res" by simp
      from IH [OF this] show ?thesis .
    qed
  qed
  then show ?thesis .
qed

lemma decide_FOUND:
  "decide rl c = FOUND \<Longrightarrow>
     length rl > 2 \<and> rl_state (hd rl) = FWD \<and> rl_state (last rl) = FWD"
  by (cases rl) (auto simp: decide_def Let_def last_map split: if_splits)

subsection \<open>Run-length records and the table\<close>

lemma characterize_Some:
  assumes "characterize e flag r tig d rl = Inr (Some call)"
  shows "list_ex (\<lambda>rec. rl_state rec = REV) rl
       \<and> MIN_INV_KMER_RUN \<le> Max (set (map rl_count (filter (\<lambda>rec. rl_state rec = REV) rl)))
       \<and> rl_state (hd rl) = FWD \<and> rl_state (last rl) = FWD \<and> 2 \<le> length rl
       \<and> (\<exists>ref_outer ref_inner d'.
             lift_region_to_sub e (tig_outer_of e tig rl) = Some ref_outer
           \<and> lift_region_to_sub e (tig_inner_of e tig rl) = Some ref_inner
           \<and> \<not> of_int (region_len ref_outer)
                   < of_int (region_len (tig_outer_of e tig rl)) * MIN_TIG_REF_PROP
           \<and> \<not> of_int (region_len (tig_outer_of e tig rl))
                   < of_int (region_len ref_outer) * MIN_TIG_REF_PROP
           \<and> annotate_inv_dup_mers e d ref_outer ref_inner
                 (tig_outer_of e tig rl) (tig_inner_of e tig rl) r = Inr d'
           \<and> call = InvCall ref_outer ref_inner (tig_outer_of e tig rl) (tig_inner_of e tig rl)
                       r tig flag d')"
  using assms
  by (auto simp: characterize_def Let_def split: if_splits option.splits sum.splits)

lemma annotate_Inr:
  assumes "annotate_inv_dup_mers e d ro ri to ti disc = Inr d'"
  shows "\<exists>f. d' = map f d \<and> (\<forall>x. STATE (f x) = STATE x \<and> INDEX (f x) = INDEX x
            \<and> KERN_REV (f x) = KERN_REV x \<and> KERN_FWD (f x) = KERN_FWD x
            \<and> KERN_FWDREV (f x) = KERN_FWDREV x \<and> KMER (f x) = KMER x)"
  using assms
  by (auto simp: annotate_inv_dup_mers_def annotate_row_def Let_def split: option.splits)

lemma rl_run_map:
  assumes "\<And>x. STATE (f x) = STATE x" "\<And>x. INDEX (f x) = INDEX x"
  shows "rl_run s c p q (map f rs) = rl_run s c p q rs"
  by (induction rs arbitrary: s c p q) (simp_all add: assms)

lemma rl_encoder_map:
  assumes "\<And>x. STATE (f x) = STATE x" "\<And>x. INDEX (f x) = INDEX x"
  shows "rl_encoder (map f rs) = rl_encoder rs"
  by (cases rs) (simp_all add: assms rl_run_map)

lemma rl_run_count:
  "sum_list (map rl_count (filter (\<lambda>rec. rl_state rec = t) (rl_run s c p q rs)))
     = (if s = t then c else 0) + length (filter (\<lambda>r. STATE r = t) rs)"
  by (induction rs arbitrary: s c p q) (auto simp: rl_state_def rl_count_def)

lemma rl_encoder_count:
  "sum_list (map rl_count (filter (\<lambda>rec. rl_state rec = t) (rl_encoder rs)))
     = length (filter (\<lambda>r. STATE r = t) rs)"
  by (cases rs) (auto simp: rl_run_count)

lemma rl_count_le_rows:
  assumes "rec \<in> set (rl_encoder rs)" "rl_state rec = t"
  shows "rl_count rec \<le> length (filter (\<lambda>r. STATE r = t) rs)"
proof -
  from assms have "rl_count rec \<in> set (map rl_count (filter (\<lambda>rec. rl_state rec = t) (rl_encoder rs)))"
    by auto
  then have "rl_count rec \<le> sum_list (map rl_count (filter (\<lambda>rec. rl_state rec = t) (rl_encoder rs)))"
    by (simp add: member_le_sum_list)
  then show ?thesis by (simp add: rl_encoder_count)
qed

lemma hd_filter_index:
  assumes "filter P xs \<noteq> []"
  shows "\<exists>i < length xs. P (xs ! i) \<and> (\<forall>k < i. \<not> P (xs ! k)) \<and> hd (filter P xs) = xs ! i"
  using assms
proof (induction xs)
  case Nil
  then show ?case by simp
next
  case (Cons x xs)
  show ?case
  proof (cases "P x")
    case True
    then have "0 < length (x # xs) \<and> P ((x # xs) ! 0) \<and> (\<forall>k < 0. \<not> P ((x # xs) ! k))
                 \<and> hd (filter P (x # xs)) = (x # xs) ! 0"
      by simp
    then show ?thesis by blast
  next
    case False
    with Cons.prems have "filter P xs \<noteq> []" by simp
    from Cons.IH [OF this] obtain i where i: "i < length xs" "P (xs ! i)"
      "\<forall>k < i. \<not> P (xs ! k)" "hd (filter P xs) = xs ! i" by blast
    have "\<forall>k < Suc i. \<not> P ((x # xs) ! k)"
      using False i(3) by (auto simp: nth_Cons split: nat.splits)
    with i False have "Suc i < length (x # xs) \<and> P ((x # xs) ! Suc i)
        \<and> (\<forall>k < Suc i. \<not> P ((x # xs) ! k)) \<and> hd (filter P (x # xs)) = (x # xs) ! Suc i"
      by simp
    then show ?thesis by blast
  qed
qed

lemma last_filter_index:
  assumes "filter P xs \<noteq> []"
  shows "\<exists>j < length xs. P (xs ! j) \<and> (\<forall>k. j < k \<and> k < length xs \<longrightarrow> \<not> P (xs ! k))
            \<and> last (filter P xs) = xs ! j"
proof -
  from assms have ne: "filter P (rev xs) \<noteq> []" by (simp add: rev_filter [symmetric])
  from hd_filter_index [OF ne] obtain i where i: "i < length xs" "P (rev xs ! i)"
    "\<forall>k < i. \<not> P (rev xs ! k)" "hd (filter P (rev xs)) = rev xs ! i" by auto
  let ?j = "length xs - Suc i"
  have j: "?j < length xs" using i(1) by simp
  have 1: "P (xs ! ?j)" using i(1,2) by (simp add: rev_nth)
  have 2: "\<forall>k. ?j < k \<and> k < length xs \<longrightarrow> \<not> P (xs ! k)"
  proof (intro allI impI)
    fix k assume k: "?j < k \<and> k < length xs"
    then have "length xs - Suc k < i" by arith
    with i(3) have "\<not> P (rev xs ! (length xs - Suc k))" by blast
    moreover have "rev xs ! (length xs - Suc k) = xs ! k"
    proof -
      from k have lt: "length xs - Suc k < length xs" by arith
      from k have eq: "length xs - Suc (length xs - Suc k) = k" by arith
      show ?thesis using rev_nth [OF lt] eq by simp
    qed
    ultimately show "\<not> P (xs ! k)" by simp
  qed
  have "last (filter P xs) = hd (rev (filter P xs))"
    using assms by (simp add: hd_rev)
  also have "\<dots> = hd (filter P (rev xs))" by (simp add: rev_filter)
  also have "\<dots> = xs ! ?j" using i(1,4) by (simp add: rev_nth)
  finally have 3: "last (filter P xs) = xs ! ?j" .
  from j 1 2 3 show ?thesis by blast
qed

subsection \<open>The result record\<close>

lemma np_max_Max: "np_max xs = (if xs = [] then None else Some (Max (set xs)))"
proof (cases xs)
  case Nil
  then show ?thesis by simp
next
  case (Cons a list)
  have "fold max list a = Max (set (a # list))"
    by (rule Max.set_eq_fold [symmetric])
  with Cons show ?thesis by simp
qed

text \<open>
  Claim C7. For every constructed \<^verbatim>\<open>InvCall\<close>: \<open>svlen\<close> is the length of the outer
  reference region; the id is the chromosome of that region, its 1-based start \<open>pos + 1\<close>
  and \<open>svlen\<close>, joined as \<^verbatim>\<open>'{}-{}-INV-{}'\<close>; and \<open>max_inv_den_diff\<close> is the maximum,
  over the rows whose \<^verbatim>\<open>STATE\<close> is REV, of \<^verbatim>\<open>KERN_REV\<close> minus the larger of
  \<^verbatim>\<open>KERN_FWD\<close> and \<^verbatim>\<open>KERN_FWDREV\<close> (there is none when no row is REV).
\<close>

theorem InvCall_derived_fields:
  "svlen (InvCall ref_outer ref_inner tig_outer tig_inner ref_disc tig_disc flag d)
      = region_len ref_outer
   \<and> inv_id (InvCall ref_outer ref_inner tig_outer tig_inner ref_disc tig_disc flag d)
      = chrom ref_outer @ ''-'' @ str_int (pos ref_outer + 1) @ ''-INV-''
          @ str_int (svlen (InvCall ref_outer ref_inner tig_outer tig_inner ref_disc tig_disc flag d))
   \<and> max_inv_den_diff (InvCall ref_outer ref_inner tig_outer tig_inner ref_disc tig_disc flag d)
      = (if filter (\<lambda>r. STATE r = REV) d = [] then None
         else Some (Max ((\<lambda>r. KERN_REV r - max (KERN_FWD r) (KERN_FWDREV r))
                           ` set (filter (\<lambda>r. STATE r = REV) d))))"
  by (simp add: InvCall_def Let_def np_max_Max inv_den_diff_def)

theorem InvCall_derived_fields_witness:
  "svlen (InvCall (Region ''chr1'' 8700 9430) (Region ''chr1'' 8800 9330)
            (Region ''tig1'' 1700 2430) (Region ''tig1'' 1800 2330)
            (Region ''chr1'' 8000 13000) (Region ''tig1'' 1000 6000)
            (Region ''chr1'' 10000 11000) example_arows) = 730
   \<and> inv_id (InvCall (Region ''chr1'' 8700 9430) (Region ''chr1'' 8800 9330)
            (Region ''tig1'' 1700 2430) (Region ''tig1'' 1800 2330)
            (Region ''chr1'' 8000 13000) (Region ''tig1'' 1000 6000)
            (Region ''chr1'' 10000 11000) example_arows) = ''chr1-8701-INV-730''
   \<and> max_inv_den_diff (InvCall (Region ''chr1'' 8700 9430) (Region ''chr1'' 8800 9330)
            (Region ''tig1'' 1700 2430) (Region ''tig1'' 1800 2330)
            (Region ''chr1'' 8000 13000) (Region ''tig1'' 1000 6000)
            (Region ''chr1'' 10000 11000) example_arows) = Some (7 / 10)"
  using InvCall_derived_fields [of "Region ''chr1'' 8700 9430" "Region ''chr1'' 8800 9330"
            "Region ''tig1'' 1700 2430" "Region ''tig1'' 1800 2330"
            "Region ''chr1'' 8000 13000" "Region ''tig1'' 1000 6000"
            "Region ''chr1'' 10000 11000" example_arows]
  by (simp add: example_arows_def region_len_def Region_def str_int_def str_nat.simps)

subsection \<open>The balance of an expansion\<close>

text \<open>
  Claim C1, at the run-length sequence [FWD, REV]: the decision is to expand, and although
  only the first run is FWD the balance is 0.5, not 0.25. The region \<open>chr1:8000-13000\<close>
  grows by \<open>np.int32(5000 * 1.5) = 7500\<close>, 3750 on each side. The bias is applied only
  when there are more than two runs (\<^verbatim>\<open>len(condensed_states) > 2\<close>), under the comment
  \<^verbatim>\<open># More than one state\<close>.
\<close>

theorem two_run_expansion_is_even:
  "decide [(FWD, 1500, 0, 1499), (REV, 1500, 1500, 2999)] 1 = EXPAND
   \<and> expand_balance (map rl_state [(FWD, 1500, 0, 1499), (REV, 1500, 1500, 2999)]) = 5 / 10
   \<and> expand_region example_env (Region ''chr1'' 8000 13000)
        (map rl_state [(FWD, 1500, 0, 1499), (REV, 1500, 1500, 2999)])
      = Region ''chr1'' 4250 16750"
  by (simp add: decide_def expand_balance_def expand_region_def expand_def Let_def rl_state_def
       Region_def region_len_def np_int32_def trunc_def EXPAND_FACTOR_def example_env_def
       MIN_EXP_COUNT_def)

subsection \<open>Flank annotation\<close>

lemma annotate_nth:
  assumes "annotate_inv_dup_mers e d ref_outer ref_inner tig_outer tig_inner discovery_tig = Inr d'"
      and "ref_kmers e (Region (chrom ref_outer) (pos ref_outer) (pos ref_inner)) = Some count_up"
      and "ref_kmers e (Region (chrom ref_outer) (endp ref_inner) (endp ref_outer)) = Some count_dn"
      and "i < length d"
  shows "d' ! i = annotate_row e (canonical_complement e ` set (map fst count_up))
                    (canonical_complement e ` set (map fst count_dn))
                    (Region (chrom tig_outer) (pos tig_outer) (pos tig_inner))
                    (Region (chrom tig_outer) (endp tig_inner) (endp tig_outer))
                    discovery_tig (d ! i)"
  using assms by (auto simp: annotate_inv_dup_mers_def Let_def)

text \<open>
  Claim C9. The reference sets of the two duplications hold canonical k-mers, and the
  membership tests of the annotation take the raw \<^verbatim>\<open>KMER\<close> of the row: the label of row
  \<open>i\<close> is the entry of \<^verbatim>\<open>KMER_LOC_STATE\<close> at the memberships of the raw k-mer (own
  side first), \<^verbatim>\<open>'NA'\<close> being no label, whatever \<^verbatim>\<open>canonical_complement\<close> is. So a
  k-mer whose raw value is in neither set has no \<^verbatim>\<open>MATCH\<close> label, also when its canonical
  form is in one of them (as for the raw k-mer 1005 below, whose canonical form 5 is in the
  upstream set only).
\<close>

theorem flank_match_uses_raw_kmer:
  assumes "annotate_inv_dup_mers e d ref_outer ref_inner tig_outer tig_inner discovery_tig = Inr d'"
      and "ref_kmers e (Region (chrom ref_outer) (pos ref_outer) (pos ref_inner)) = Some count_up"
      and "ref_kmers e (Region (chrom ref_outer) (endp ref_inner) (endp ref_outer)) = Some count_dn"
      and "ref_set_up = canonical_complement e ` set (map fst count_up)"
      and "ref_set_dn = canonical_complement e ` set (map fst count_dn)"
      and "i < length d"
  shows "MATCH (d' ! i) =
           (if FLANK (d' ! i) = Some ''UP''
              then (if KMER_LOC_STATE (KMER (d ! i) \<in> ref_set_up) (KMER (d ! i) \<in> ref_set_dn) = ''NA''
                    then None
                    else Some (KMER_LOC_STATE (KMER (d ! i) \<in> ref_set_up) (KMER (d ! i) \<in> ref_set_dn)))
            else if FLANK (d' ! i) = Some ''DN''
              then (if KMER_LOC_STATE (KMER (d ! i) \<in> ref_set_dn) (KMER (d ! i) \<in> ref_set_up) = ''NA''
                    then None
                    else Some (KMER_LOC_STATE (KMER (d ! i) \<in> ref_set_dn) (KMER (d ! i) \<in> ref_set_up)))
            else None)
         \<and> (KMER (d ! i) \<notin> ref_set_up \<and> KMER (d ! i) \<notin> ref_set_dn \<longrightarrow> MATCH (d' ! i) = None)"
  unfolding annotate_nth [OF assms(1,2,3,6)] assms(4,5)
  by (simp add: annotate_row_def Let_def KMER_LOC_STATE_def)

theorem flank_match_uses_raw_kmer_witness:
  "annotate_inv_dup_mers example_env [mk_row 1005 700 FWDREV]
      (Region ''chr1'' 8700 9430) (Region ''chr1'' 8800 9330)
      (Region ''tig1'' 1700 2430) (Region ''tig1'' 1800 2330) (Region ''tig1'' 1000 6000)
     = Inr [\<lparr>KMER = 1005, INDEX = 700, STATE = FWDREV, KERN_FWD = 1 / 10, KERN_FWDREV = 7 / 10,
             KERN_REV = 1 / 10, FLANK = Some ''UP'', MATCH = None\<rparr>]
   \<and> canonical_complement example_env 1005 = 5
   \<and> canonical_complement example_env 1005 \<in> canonical_complement example_env ` set (map fst [(5, 1), (6, 2)])
   \<and> canonical_complement example_env 1005 \<notin> canonical_complement example_env ` set (map fst [(6, 2), (8, 1)])
   \<and> 1005 \<notin> canonical_complement example_env ` set (map fst [(5, 1), (6, 2)])
   \<and> 1005 \<notin> canonical_complement example_env ` set (map fst [(6, 2), (8, 1)])"
proof -
  let ?d' = "[\<lparr>KMER = 1005, INDEX = 700, STATE = FWDREV, KERN_FWD = 1 / 10, KERN_FWDREV = 7 / 10,
             KERN_REV = 1 / 10, FLANK = Some ''UP'', MATCH = None\<rparr>]"
  have a: "annotate_inv_dup_mers example_env [mk_row 1005 700 FWDREV]
      (Region ''chr1'' 8700 9430) (Region ''chr1'' 8800 9330)
      (Region ''tig1'' 1700 2430) (Region ''tig1'' 1800 2330) (Region ''tig1'' 1000 6000) = Inr ?d'"
    by (simp add: annotate_inv_dup_mers_def annotate_row_def Let_def example_env_def Region_def
          mk_row_def KMER_LOC_STATE_def)
  have up: "ref_kmers example_env (Region (chrom (Region ''chr1'' 8700 9430))
              (pos (Region ''chr1'' 8700 9430)) (pos (Region ''chr1'' 8800 9330))) = Some [(5, 1), (6, 2)]"
    by (simp add: example_env_def Region_def)
  have dn: "ref_kmers example_env (Region (chrom (Region ''chr1'' 8700 9430))
              (endp (Region ''chr1'' 8800 9330)) (endp (Region ''chr1'' 8700 9430))) = Some [(6, 2), (8, 1)]"
    by (simp add: example_env_def Region_def)
  have i: "0 < length [mk_row 1005 700 FWDREV]" by simp
  from flank_match_uses_raw_kmer [OF a up dn refl refl i]
  have "MATCH (?d' ! 0) = None" by (simp add: mk_row_def example_env_def)
  with a show ?thesis by (simp add: example_env_def)
qed

subsection \<open>The example scan\<close>

lemma length_run_rows: "length (run_rows s i n) = n"
  by (induction n arbitrary: i) simp_all

lemma run_rows_Nil: "run_rows s i n = [] \<longleftrightarrow> n = 0"
  using length_run_rows [of s i n] by (cases n) auto

lemma run_rows_nth:
  "k < n \<Longrightarrow> run_rows s i n ! k = mk_row (nat (i + int k)) (i + int k) s"
proof (induction n arbitrary: i k)
  case 0
  then show ?case by simp
next
  case (Suc n)
  show ?case
  proof (cases k)
    case 0
    then show ?thesis by simp
  next
    case (Suc j)
    with Suc.prems have "j < n" by simp
    from Suc.IH [OF this, of "i + 1"] Suc show ?thesis by (simp add: algebra_simps)
  qed
qed

lemma rl_run_rows_same:
  "rl_run s c p q (run_rows s i n @ rest)
     = rl_run s (c + n) p (if n = 0 then q else i + int n - 1) rest"
  by (induction n arbitrary: i c q) (simp_all add: mk_row_def)

lemma rl_run_rows_other:
  assumes "s \<noteq> t" "0 < n"
  shows "rl_run s c p q (run_rows t i n @ rest) = (s, c, p, q) # rl_run t n i (i + int n - 1) rest"
proof -
  from assms(2) obtain m where n: "n = Suc m" by (cases n) simp_all
  have "rl_run s c p q (run_rows t i (Suc m) @ rest)
          = (s, c, p, q) # rl_run t 1 i i (run_rows t (i + 1) m @ rest)"
    using assms(1) by (simp add: mk_row_def)
  also have "rl_run t 1 i i (run_rows t (i + 1) m @ rest)
          = rl_run t (1 + m) i (if m = 0 then i else i + 1 + int m - 1) rest"
    by (rule rl_run_rows_same)
  finally show ?thesis unfolding n by (simp add: add.commute)
qed

lemma rl_run_rows_last:
  assumes "s \<noteq> t" "0 < n"
  shows "rl_run s c p q (run_rows t i n) = [(s, c, p, q), (t, n, i, i + int n - 1)]"
  using rl_run_rows_other [OF assms, of c p q i "[]"] by simp

lemma rl_encoder_rows:
  assumes "0 < n"
  shows "rl_encoder (run_rows t i n @ rest) = rl_run t n i (i + int n - 1) rest"
proof -
  from assms obtain m where n: "n = Suc m" by (cases n) simp_all
  have "rl_encoder (run_rows t i (Suc m) @ rest) = rl_run t 1 i i (run_rows t (i + 1) m @ rest)"
    by (simp add: mk_row_def)
  also have "\<dots> = rl_run t (1 + m) i (if m = 0 then i else i + 1 + int m - 1) rest"
    by (rule rl_run_rows_same)
  finally show ?thesis unfolding n by (simp add: add.commute)
qed

lemma rl_encoder_rows_last:
  assumes "0 < n"
  shows "rl_encoder (run_rows t i n) = [(t, n, i, i + int n - 1)]"
  using rl_encoder_rows [OF assms, of t i "[]"] by simp

lemma example_rl:
  "rl_encoder example_table =
     [(FWD, 700, 0, 699), (FWDREV, 100, 700, 799), (REV, 500, 800, 1299),
      (FWDREV, 100, 1300, 1399), (FWD, 700, 1400, 2099)]"
  by (simp add: example_table_def rl_encoder_rows rl_run_rows_other rl_run_rows_last)

lemma example_table_length: "length example_table = 2100"
  by (simp add: example_table_def length_run_rows)

lemma example_table_nonempty: "example_table \<noteq> []"
  using example_table_length by auto

lemma example_table_700: "example_table ! 700 = mk_row 700 700 FWDREV"
  by (simp add: example_table_def nth_append length_run_rows run_rows_nth)

lemma example_iter:
  "scan_iter example_env example_region (Region ''chr1'' 8000 13000) 0 =
     Break (Region ''tig1'' 1000 6000) example_table
       [(FWD, 700, 0, 699), (FWDREV, 100, 700, 799), (REV, 500, 800, 1299),
        (FWDREV, 100, 1300, 1399), (FWD, 700, 1400, 2099)]"
  by (simp add: scan_iter_def example_env_def Region_def example_table_nonempty example_rl
        decide_def rl_state_def MAX_REF_KMER_COUNT_def MIN_EXP_COUNT_def Let_def)

lemma example_characterize:
  "characterize example_env example_region (Region ''chr1'' 8000 13000)
     (Region ''tig1'' 1000 6000) example_table
     [(FWD, 700, 0, 699), (FWDREV, 100, 700, 799), (REV, 500, 800, 1299),
      (FWDREV, 100, 1300, 1399), (FWD, 700, 1400, 2099)] = Inr (Some example_call)"
  by (simp add: characterize_def tig_outer_of_def tig_inner_of_def example_call_def
        annotate_inv_dup_mers_def Region_def region_len_def rl_state_def rl_count_def rl_pos_def
        rl_end_def MIN_INV_KMER_RUN_def MIN_TIG_REF_PROP_def Let_def example_env_def)

lemma example_scan:
  "scan_for_inv example_env example_region = Some (Inr (Some example_call))"
proof -
  have e: "expand example_region INITIAL_EXPAND 0 (df_fai example_env (chrom example_region)) True (5 / 10)
          = Region ''chr1'' 8000 13000"
    by (simp add: expand_def example_region_def Region_def INITIAL_EXPAND_def trunc_def
          example_env_def Let_def)
  have l: "scan_loop example_env example_region (Region ''chr1'' 8000 13000) 0
             = Some (Inr (Some example_call))"
    by (subst scan_loop.simps) (simp only: example_iter iteration.case example_characterize)
  show ?thesis
    unfolding scan_for_inv_def Let_def e by (rule l)
qed

text \<open>
  Claim C2, at the example scan. The contig discovery region starts at 1000 and the reference
  one at 8000. The row with \<^verbatim>\<open>INDEX\<close> 700 lies at contig position 1700, in the upstream
  window \<open>[1700, 1800 - 31)\<close>. \<^verbatim>\<open>scan_for_inv\<close> passes \<^verbatim>\<open>region_ref\<close> as the argument
  \<^verbatim>\<open>region_tig_discovery\<close> of the annotation, so the row is placed at 8700 and gets neither
  a \<^verbatim>\<open>FLANK\<close> nor a \<^verbatim>\<open>MATCH\<close> label; with the contig discovery region as that argument
  its \<^verbatim>\<open>FLANK\<close> is \<^verbatim>\<open>'UP'\<close>.
\<close>

theorem scan_annotates_with_reference_offset:
  "scan_for_inv example_env example_region = Some (Inr (Some example_call))
   \<and> pos (region_ref_discovery example_call) = 8000
   \<and> pos (region_tig_discovery example_call) = 1000
   \<and> pos (region_tig_outer example_call) = 1700
   \<and> pos (region_tig_inner example_call) - k_size example_env = 1769
   \<and> INDEX (df example_call ! 700) = 700
   \<and> FLANK (df example_call ! 700) = None
   \<and> MATCH (df example_call ! 700) = None
   \<and> FLANK (annotate_row example_env {5, 6} {6, 8}
               (Region ''tig1'' 1700 1800) (Region ''tig1'' 2330 2430)
               (region_tig_discovery example_call) (example_table ! 700)) = Some ''UP''"
proof -
  have n: "df example_call ! 700 =
             annotate_row example_env {5, 6} {6, 8}
               (Region ''tig1'' 1700 1800) (Region ''tig1'' 2330 2430)
               (Region ''chr1'' 8000 13000) (mk_row 700 700 FWDREV)"
    unfolding example_call_def InvCall_def Let_def
    by (simp add: example_table_length example_table_700)
  have r: "INDEX (df example_call ! 700) = 700 \<and> FLANK (df example_call ! 700) = None
             \<and> MATCH (df example_call ! 700) = None"
    unfolding n by (simp add: annotate_row_def mk_row_def Region_def example_env_def Let_def)
  have c: "pos (region_ref_discovery example_call) = 8000
             \<and> pos (region_tig_discovery example_call) = 1000
             \<and> pos (region_tig_outer example_call) = 1700
             \<and> pos (region_tig_inner example_call) - k_size example_env = 1769
             \<and> region_tig_discovery example_call = Region ''tig1'' 1000 6000"
    by (simp add: example_call_def InvCall_def Let_def Region_def example_env_def)
  have u: "FLANK (annotate_row example_env {5, 6} {6, 8}
               (Region ''tig1'' 1700 1800) (Region ''tig1'' 2330 2430)
               (Region ''tig1'' 1000 6000) (mk_row 700 700 FWDREV)) = Some ''UP''"
    by (simp add: annotate_row_def mk_row_def Region_def example_env_def Let_def)
  from c have td: "region_tig_discovery example_call = Region ''tig1'' 1000 6000"
    by blast
  have u': "FLANK (annotate_row example_env {5, 6} {6, 8}
               (Region ''tig1'' 1700 1800) (Region ''tig1'' 2330 2430)
               (region_tig_discovery example_call) (example_table ! 700)) = Some ''UP''"
    unfolding td example_table_700 by (rule u)
  from example_scan r c u' show ?thesis by blast
qed

subsection \<open>What a returned call says about the scan\<close>

lemma scan_for_inv_call:
  assumes "scan_for_inv e region = Some (Inr (Some call))"
  shows "\<exists>r c tig d. scan_iter e region r c = Break tig d (rl_encoder d)
            \<and> characterize e region r tig d (rl_encoder d) = Inr (Some call)"
proof -
  from assms have "scan_loop e region
      (expand region INITIAL_EXPAND 0 (df_fai e (chrom region)) True (5 / 10)) 0
        = Some (Inr (Some call))"
    by (simp add: scan_for_inv_def Let_def)
  from scan_loop_Some [OF this] show ?thesis
  proof
    assume "\<exists>r' c'. scan_iter e region r' c' = Return (Inr (Some call))"
    then obtain r' c' where "scan_iter e region r' c' = Return (Inr (Some call))" by blast
    from scan_iter_Return [OF this] show ?thesis by simp
  next
    assume "\<exists>r' c' tig d rl. scan_iter e region r' c' = Break tig d rl
              \<and> Inr (Some call) = characterize e region r' tig d rl"
    then obtain r' c' tig d rl where b: "scan_iter e region r' c' = Break tig d rl"
      and c: "characterize e region r' tig d rl = Inr (Some call)" by metis
    from scan_iter_Break [OF b] have "rl = rl_encoder d" by simp
    with b c show ?thesis by blast
  qed
qed

lemma scan_call_facts:
  assumes "scan_for_inv e region = Some (Inr (Some call))"
  defines "rl \<equiv> rl_encoder (df call)"
  shows "2 < length rl" "rl_state (hd rl) = FWD" "rl_state (last rl) = FWD"
    and "list_ex (\<lambda>rec. rl_state rec = REV) rl"
    and "MIN_INV_KMER_RUN \<le> Max (set (map rl_count (filter (\<lambda>rec. rl_state rec = REV) rl)))"
    and "lift_region_to_qry e (region_ref_discovery call) = Some (region_tig_discovery call)"
    and "region_tig_outer call = tig_outer_of e (region_tig_discovery call) rl"
    and "region_tig_inner call = tig_inner_of e (region_tig_discovery call) rl"
    and "lift_region_to_sub e (region_tig_outer call) = Some (region_ref_outer call)"
    and "lift_region_to_sub e (region_tig_inner call) = Some (region_ref_inner call)"
    and "\<not> of_int (region_len (region_ref_outer call))
            < of_int (region_len (region_tig_outer call)) * MIN_TIG_REF_PROP"
    and "\<not> of_int (region_len (region_tig_outer call))
            < of_int (region_len (region_ref_outer call)) * MIN_TIG_REF_PROP"
    and "region_flag call = region"
proof -
  from scan_for_inv_call [OF assms(1)] obtain r c tig d where
    b: "scan_iter e region r c = Break tig d (rl_encoder d)" and
    ch: "characterize e region r tig d (rl_encoder d) = Inr (Some call)" by blast
  let ?rl = "rl_encoder d"
  from characterize_Some [OF ch] obtain ref_outer ref_inner d' where
    f: "list_ex (\<lambda>rec. rl_state rec = REV) ?rl"
       "MIN_INV_KMER_RUN \<le> Max (set (map rl_count (filter (\<lambda>rec. rl_state rec = REV) ?rl)))"
       "lift_region_to_sub e (tig_outer_of e tig ?rl) = Some ref_outer"
       "lift_region_to_sub e (tig_inner_of e tig ?rl) = Some ref_inner"
       "\<not> of_int (region_len ref_outer)
            < of_int (region_len (tig_outer_of e tig ?rl)) * MIN_TIG_REF_PROP"
       "\<not> of_int (region_len (tig_outer_of e tig ?rl))
            < of_int (region_len ref_outer) * MIN_TIG_REF_PROP"
       "annotate_inv_dup_mers e d ref_outer ref_inner
          (tig_outer_of e tig ?rl) (tig_inner_of e tig ?rl) r = Inr d'"
       "call = InvCall ref_outer ref_inner (tig_outer_of e tig ?rl) (tig_inner_of e tig ?rl)
                 r tig region d'"
    by blast
  from annotate_Inr [OF f(7)] obtain g where g: "d' = map g d"
    "\<And>x. STATE (g x) = STATE x" "\<And>x. INDEX (g x) = INDEX x" by blast
  have "df call = d'" using f(8) by (simp add: InvCall_def Let_def)
  then have rl: "rl = ?rl" unfolding rl_def g(1) by (simp add: rl_encoder_map g(2,3))
  from scan_iter_Break [OF b] have q: "lift_region_to_qry e r = Some tig"
    and dec: "decide ?rl (c + 1) = FOUND" by simp_all
  from decide_FOUND [OF dec] rl
  show "2 < length rl" "rl_state (hd rl) = FWD" "rl_state (last rl) = FWD" by simp_all
  from f(1,2) rl show "list_ex (\<lambda>rec. rl_state rec = REV) rl"
    "MIN_INV_KMER_RUN \<le> Max (set (map rl_count (filter (\<lambda>rec. rl_state rec = REV) rl)))"
    by simp_all
  have sel: "region_ref_discovery call = r" "region_tig_discovery call = tig"
    "region_tig_outer call = tig_outer_of e tig ?rl" "region_tig_inner call = tig_inner_of e tig ?rl"
    "region_ref_outer call = ref_outer" "region_ref_inner call = ref_inner"
    "region_flag call = region"
    using f(8) by (simp_all add: InvCall_def Let_def)
  from q sel show "lift_region_to_qry e (region_ref_discovery call) = Some (region_tig_discovery call)"
    by simp
  from sel rl show "region_tig_outer call = tig_outer_of e (region_tig_discovery call) rl"
    "region_tig_inner call = tig_inner_of e (region_tig_discovery call) rl" by simp_all
  from sel f(3,4) show "lift_region_to_sub e (region_tig_outer call) = Some (region_ref_outer call)"
    "lift_region_to_sub e (region_tig_inner call) = Some (region_ref_inner call)" by simp_all
  from sel f(5,6) show "\<not> of_int (region_len (region_ref_outer call))
            < of_int (region_len (region_tig_outer call)) * MIN_TIG_REF_PROP"
    "\<not> of_int (region_len (region_tig_outer call))
            < of_int (region_len (region_ref_outer call)) * MIN_TIG_REF_PROP" by simp_all
  from sel show "region_flag call = region" by simp
qed

text \<open>
  Claim C3. When the loop is left in the FOUND state and a call is built, with the run-length
  records \<open>r\<^sub>0 \<dots> r\<^sub>n\<^sub>-\<^sub>1\<close> of the table (\<open>n > 2\<close>, \<open>r\<^sub>0\<close> and \<open>r\<^sub>n\<^sub>-\<^sub>1\<close> FWD) and the
  contig region that the search region lifts to: the outer contig region goes from the start
  index of \<open>r\<^sub>1\<close> to the end index of \<open>r\<^sub>n\<^sub>-\<^sub>2\<close> plus \<open>k_size\<close>; the inner one from the start
  index of the first REV record \<open>r\<^sub>i\<close> to the end index of the last REV record \<open>r\<^sub>j\<close> plus
  \<open>k_size\<close>; both are offset by the start of the contig region, and the two reference regions
  are their lifts by \<^verbatim>\<open>lift_region_to_sub\<close>.
\<close>

theorem found_breakpoint_regions:
  assumes "scan_for_inv e region = Some (Inr (Some call))"
  shows "\<exists>i j.
     (let state_rl = rl_encoder (df call);
          n = length state_rl;
          region_tig = region_tig_discovery call
      in 2 < n \<and> rl_state (state_rl ! 0) = FWD \<and> rl_state (state_rl ! (n - 1)) = FWD
       \<and> lift_region_to_qry e (region_ref_discovery call) = Some region_tig
       \<and> region_tig_outer call =
           Region (chrom region_tig)
             (rl_pos (state_rl ! 1) + pos region_tig)
             (rl_end (state_rl ! (n - 2)) + pos region_tig + k_size e)
       \<and> i \<le> j \<and> j < n \<and> rl_state (state_rl ! i) = REV \<and> rl_state (state_rl ! j) = REV
       \<and> (\<forall>k < n. rl_state (state_rl ! k) = REV \<longrightarrow> i \<le> k \<and> k \<le> j)
       \<and> region_tig_inner call =
           Region (chrom region_tig)
             (rl_pos (state_rl ! i) + pos region_tig)
             (rl_end (state_rl ! j) + pos region_tig + k_size e)
       \<and> lift_region_to_sub e (region_tig_outer call) = Some (region_ref_outer call)
       \<and> lift_region_to_sub e (region_tig_inner call) = Some (region_ref_inner call))"
proof -
  let ?rl = "rl_encoder (df call)"
  let ?n = "length ?rl"
  let ?tig = "region_tig_discovery call"
  let ?P = "\<lambda>rec. rl_state rec = REV"
  note f = scan_call_facts [OF assms]
  from f(1) have ne: "?rl \<noteq> []" by auto
  have ends: "rl_state (?rl ! 0) = FWD" "rl_state (?rl ! (?n - 1)) = FWD"
    using f(2,3) ne by (simp_all add: hd_conv_nth last_conv_nth)
  from f(4) have fne: "filter ?P ?rl \<noteq> []"
    by (auto simp: list_ex_iff filter_empty_conv)
  from hd_filter_index [OF fne] obtain i where i: "i < ?n" "?P (?rl ! i)"
    "\<forall>k < i. \<not> ?P (?rl ! k)" "hd (filter ?P ?rl) = ?rl ! i" by blast
  from last_filter_index [OF fne] obtain j where j: "j < ?n" "?P (?rl ! j)"
    "\<forall>k. j < k \<and> k < ?n \<longrightarrow> \<not> ?P (?rl ! k)" "last (filter ?P ?rl) = ?rl ! j" by blast
  have ij: "i \<le> j"
  proof (rule ccontr)
    assume "\<not> i \<le> j"
    then have "j < i" by simp
    with i(3) j(2) show False by blast
  qed
  have between: "\<forall>k < ?n. ?P (?rl ! k) \<longrightarrow> i \<le> k \<and> k \<le> j"
  proof (intro allI impI)
    fix k assume k: "k < ?n" and p: "?P (?rl ! k)"
    have "\<not> k < i" using i(3) p by blast
    moreover have "\<not> j < k" using j(3) k p by blast
    ultimately show "i \<le> k \<and> k \<le> j" by simp
  qed
  have outer: "region_tig_outer call =
           Region (chrom ?tig) (rl_pos (?rl ! 1) + pos ?tig)
             (rl_end (?rl ! (?n - 2)) + pos ?tig + k_size e)"
    using f(7) by (simp add: tig_outer_of_def)
  have inner: "region_tig_inner call =
           Region (chrom ?tig) (rl_pos (?rl ! i) + pos ?tig)
             (rl_end (?rl ! j) + pos ?tig + k_size e)"
    using f(8) i(4) j(4) by (simp add: tig_inner_of_def Let_def)
  from f(1) ends f(6) outer ij j(1) i(2) j(2) between inner f(9,10)
  show ?thesis unfolding Let_def by blast
qed

theorem found_breakpoint_regions_witness:
  "scan_for_inv example_env example_region = Some (Inr (Some example_call))
   \<and> rl_encoder (df example_call) =
       [(FWD, 700, 0, 699), (FWDREV, 100, 700, 799), (REV, 500, 800, 1299),
        (FWDREV, 100, 1300, 1399), (FWD, 700, 1400, 2099)]
   \<and> region_tig_discovery example_call = Region ''tig1'' 1000 6000
   \<and> region_tig_outer example_call = Region ''tig1'' (700 + 1000) (1399 + 1000 + 31)
   \<and> region_tig_inner example_call = Region ''tig1'' (800 + 1000) (1299 + 1000 + 31)
   \<and> lift_region_to_sub example_env (region_tig_outer example_call)
       = Some (region_ref_outer example_call)
   \<and> lift_region_to_sub example_env (region_tig_inner example_call)
       = Some (region_ref_inner example_call)"
proof -
  from found_breakpoint_regions [OF example_scan]
  have l: "lift_region_to_sub example_env (region_tig_outer example_call)
             = Some (region_ref_outer example_call)
         \<and> lift_region_to_sub example_env (region_tig_inner example_call)
             = Some (region_ref_inner example_call)"
    unfolding Let_def by blast
  have "rl_encoder (df example_call) = rl_encoder example_table"
    unfolding example_call_def InvCall_def Let_def
    by (simp add: rl_encoder_map annotate_row_def Let_def)
  then have rl: "rl_encoder (df example_call) =
       [(FWD, 700, 0, 699), (FWDREV, 100, 700, 799), (REV, 500, 800, 1299),
        (FWDREV, 100, 1300, 1399), (FWD, 700, 1400, 2099)]"
    by (simp only: example_rl)
  have c: "region_tig_discovery example_call = Region ''tig1'' 1000 6000
   \<and> region_tig_outer example_call = Region ''tig1'' (700 + 1000) (1399 + 1000 + 31)
   \<and> region_tig_inner example_call = Region ''tig1'' (800 + 1000) (1299 + 1000 + 31)"
    by (simp add: example_call_def InvCall_def Let_def)
  from example_scan rl c l show ?thesis by blast
qed

subsection \<open>The proportion check\<close>

lemma scan_loop_Break:
  assumes "scan_iter e region r c = Break tig d rl"
  shows "scan_loop e region r c = Some (characterize e region r tig d rl)"
  by (subst scan_loop.simps) (simp add: assms)

lemma scan_loop_Return:
  assumes "scan_iter e region r c = Return res"
  shows "scan_loop e region r c = Some res"
  by (subst scan_loop.simps) (simp add: assms)

lemma short_lift_iter:
  "scan_iter short_lift_env example_region (Region ''chr1'' 8000 13000) 0 =
     Break (Region ''tig1'' 1000 6000) example_table
       [(FWD, 700, 0, 699), (FWDREV, 100, 700, 799), (REV, 500, 800, 1299),
        (FWDREV, 100, 1300, 1399), (FWD, 700, 1400, 2099)]"
  by (simp add: scan_iter_def short_lift_env_def example_env_def Region_def
        example_table_nonempty example_rl
        decide_def rl_state_def MAX_REF_KMER_COUNT_def MIN_EXP_COUNT_def Let_def)

text \<open>
  Claim C4. A call returned by \<^verbatim>\<open>scan_for_inv\<close> has
  \<open>len(region_ref_outer) \<ge> MIN_TIG_REF_PROP * len(region_tig_outer)\<close> and
  \<open>len(region_tig_outer) \<ge> MIN_TIG_REF_PROP * len(region_ref_outer)\<close>; and when the loop is
  left in the FOUND state, the checks on the REV runs pass, the outer contig region lifts to
  a reference region and one of the two inequalities fails, the scan returns no call.
  \<^verbatim>\<open>MIN_TIG_REF_PROP\<close> is the rational 6/10 and the products are exact.
\<close>

theorem call_proportion_bound:
  "(scan_for_inv e region = Some (Inr (Some call)) \<longrightarrow>
      MIN_TIG_REF_PROP * of_int (region_len (region_tig_outer call))
        \<le> of_int (region_len (region_ref_outer call))
    \<and> MIN_TIG_REF_PROP * of_int (region_len (region_ref_outer call))
        \<le> of_int (region_len (region_tig_outer call)))
   \<and> (scan_iter e region region_ref count0 = Break region_tig d state_rl
      \<and> list_ex (\<lambda>rec. rl_state rec = REV) state_rl
      \<and> MIN_INV_KMER_RUN
          \<le> Max (set (map rl_count (filter (\<lambda>rec. rl_state rec = REV) state_rl)))
      \<and> lift_region_to_sub e (tig_outer_of e region_tig state_rl) = Some ref_outer
      \<and> (of_int (region_len ref_outer)
            < MIN_TIG_REF_PROP * of_int (region_len (tig_outer_of e region_tig state_rl))
         \<or> of_int (region_len (tig_outer_of e region_tig state_rl))
            < MIN_TIG_REF_PROP * of_int (region_len ref_outer))
      \<longrightarrow> scan_loop e region region_ref count0 = Some (Inr None))"
proof (intro conjI impI)
  assume a: "scan_for_inv e region = Some (Inr (Some call))"
  from scan_call_facts(11) [OF a]
  show "MIN_TIG_REF_PROP * of_int (region_len (region_tig_outer call))
          \<le> of_int (region_len (region_ref_outer call))"
    by (simp add: mult.commute)
  from scan_call_facts(12) [OF a]
  show "MIN_TIG_REF_PROP * of_int (region_len (region_ref_outer call))
          \<le> of_int (region_len (region_tig_outer call))"
    by (simp add: mult.commute)
next
  assume a: "scan_iter e region region_ref count0 = Break region_tig d state_rl
      \<and> list_ex (\<lambda>rec. rl_state rec = REV) state_rl
      \<and> MIN_INV_KMER_RUN
          \<le> Max (set (map rl_count (filter (\<lambda>rec. rl_state rec = REV) state_rl)))
      \<and> lift_region_to_sub e (tig_outer_of e region_tig state_rl) = Some ref_outer
      \<and> (of_int (region_len ref_outer)
            < MIN_TIG_REF_PROP * of_int (region_len (tig_outer_of e region_tig state_rl))
         \<or> of_int (region_len (tig_outer_of e region_tig state_rl))
            < MIN_TIG_REF_PROP * of_int (region_len ref_outer))"
  then have b: "scan_iter e region region_ref count0 = Break region_tig d state_rl" by blast
  from scan_iter_Break [OF b] have dec: "decide state_rl (count0 + 1) = FOUND" by blast
  from decide_FOUND [OF dec] have s: "2 < length state_rl" "rl_state (hd state_rl) = FWD"
    "rl_state (last state_rl) = FWD" by simp_all
  from a s have "characterize e region region_ref region_tig d state_rl = Inr None"
    by (auto simp: characterize_def Let_def mult.commute)
  with scan_loop_Break [OF b] show "scan_loop e region region_ref count0 = Some (Inr None)"
    by simp
qed

theorem call_proportion_bound_witness:
  "scan_for_inv example_env example_region = Some (Inr (Some example_call))
   \<and> region_len (region_tig_outer example_call) = 730
   \<and> region_len (region_ref_outer example_call) = 730
   \<and> MIN_TIG_REF_PROP * of_int (region_len (region_tig_outer example_call))
        \<le> of_int (region_len (region_ref_outer example_call))
   \<and> MIN_TIG_REF_PROP * of_int (region_len (region_ref_outer example_call))
        \<le> of_int (region_len (region_tig_outer example_call))
   \<and> lift_region_to_sub short_lift_env (Region ''tig1'' 1700 2430) = Some (Region ''chr1'' 8700 8800)
   \<and> (of_int (region_len (Region ''chr1'' 8700 8800)) :: rat)
        < MIN_TIG_REF_PROP * of_int (region_len (Region ''tig1'' 1700 2430))
   \<and> scan_loop short_lift_env example_region (Region ''chr1'' 8000 13000) 0 = Some (Inr None)"
proof -
  let ?rl = "[(FWD, 700, 0, 699), (FWDREV, 100, 700, 799), (REV, 500, 800, 1299),
        (FWDREV, 100, 1300, 1399), (FWD, 700, 1400, 2099)] :: rl_record list"
  note t = call_proportion_bound [of example_env example_region example_call]
  from t example_scan have p: "MIN_TIG_REF_PROP * of_int (region_len (region_tig_outer example_call))
        \<le> of_int (region_len (region_ref_outer example_call))
   \<and> MIN_TIG_REF_PROP * of_int (region_len (region_ref_outer example_call))
        \<le> of_int (region_len (region_tig_outer example_call))"
    by blast
  have len: "region_len (region_tig_outer example_call) = 730
      \<and> region_len (region_ref_outer example_call) = 730"
    by (simp add: example_call_def InvCall_def Let_def Region_def region_len_def)
  have o: "tig_outer_of short_lift_env (Region ''tig1'' 1000 6000) ?rl = Region ''tig1'' 1700 2430"
    by (simp add: tig_outer_of_def short_lift_env_def example_env_def Region_def rl_pos_def rl_end_def)
  have l: "lift_region_to_sub short_lift_env (Region ''tig1'' 1700 2430) = Some (Region ''chr1'' 8700 8800)"
    by (simp add: short_lift_env_def example_env_def Region_def)
  have lt: "(of_int (region_len (Region ''chr1'' 8700 8800)) :: rat)
        < MIN_TIG_REF_PROP * of_int (region_len (Region ''tig1'' 1700 2430))"
    by (simp add: region_len_def Region_def MIN_TIG_REF_PROP_def)
  have rv: "list_ex (\<lambda>rec. rl_state rec = REV) ?rl
      \<and> MIN_INV_KMER_RUN \<le> Max (set (map rl_count (filter (\<lambda>rec. rl_state rec = REV) ?rl)))"
    by (simp add: rl_state_def rl_count_def MIN_INV_KMER_RUN_def)
  from call_proportion_bound [of short_lift_env example_region example_call
      "Region ''chr1'' 8000 13000" 0 "Region ''tig1'' 1000 6000" example_table ?rl
      "Region ''chr1'' 8700 8800"]
    short_lift_iter rv l lt
  have "scan_loop short_lift_env example_region (Region ''chr1'' 8000 13000) 0 = Some (Inr None)"
    unfolding o by blast
  with example_scan len p l lt show ?thesis by blast
qed

subsection \<open>The inverted rows of a call\<close>

text \<open>
  Claim C10. A call is built only after a REV run has been found and the longest REV run has
  at least \<^verbatim>\<open>MIN_INV_KMER_RUN\<close> k-mers. So the table of a returned call has at least
  \<^verbatim>\<open>MIN_INV_KMER_RUN\<close> rows whose \<^verbatim>\<open>STATE\<close> is REV, the selection of the constructor is not
  empty, and \<open>max_inv_den_diff\<close> is the maximum of a non-empty series.
\<close>

theorem call_has_inverted_rows:
  assumes "scan_for_inv e region = Some (Inr (Some call))"
  shows "list_ex (\<lambda>rec. rl_state rec = REV) (rl_encoder (df call))
       \<and> MIN_INV_KMER_RUN
            \<le> Max (set (map rl_count (filter (\<lambda>rec. rl_state rec = REV) (rl_encoder (df call)))))
       \<and> MIN_INV_KMER_RUN \<le> length (filter (\<lambda>r. STATE r = REV) (df call))
       \<and> filter (\<lambda>r. STATE r = REV) (df call) \<noteq> []
       \<and> inv_den_diff (df call) \<noteq> []
       \<and> max_inv_den_diff call = Some (Max (set (inv_den_diff (df call))))"
proof -
  let ?rl = "rl_encoder (df call)"
  let ?inv = "filter (\<lambda>rec. rl_state rec = REV) ?rl"
  note f = scan_call_facts [OF assms]
  from f(4) obtain x where "x \<in> set ?rl" "rl_state x = REV"
    unfolding list_ex_iff by blast
  then have ne: "?inv \<noteq> []" unfolding filter_empty_conv by blast
  then have "Max (set (map rl_count ?inv)) \<in> set (map rl_count ?inv)"
  proof (intro Max_in)
    show "finite (set (map rl_count ?inv))" by (rule finite_set)
    from ne have "map rl_count ?inv \<noteq> []" by (simp only: map_is_Nil_conv not_False_eq_True)
    then show "set (map rl_count ?inv) \<noteq> {}" by (simp only: set_empty not_False_eq_True)
  qed
  then have "Max (set (map rl_count ?inv)) \<in> rl_count ` set ?inv"
    by (simp only: set_map)
  then obtain rec where mem: "rec \<in> set ?inv"
    and cnt: "Max (set (map rl_count ?inv)) = rl_count rec" by blast
  from mem have "rec \<in> set ?rl \<and> rl_state rec = REV" by simp
  with cnt have rec: "rec \<in> set ?rl" "rl_state rec = REV"
    "rl_count rec = Max (set (map rl_count ?inv))" by simp_all
  from rl_count_le_rows [OF rec(1,2)] rec(3) f(5)
  have len: "MIN_INV_KMER_RUN \<le> length (filter (\<lambda>r. STATE r = REV) (df call))" by simp
  then have rows: "filter (\<lambda>r. STATE r = REV) (df call) \<noteq> []"
    by (auto simp: MIN_INV_KMER_RUN_def)
  then have dd: "inv_den_diff (df call) \<noteq> []" by (simp add: inv_den_diff_def)
  from scan_for_inv_call [OF assms] obtain r c tig d where
    ch: "characterize e region r tig d (rl_encoder d) = Inr (Some call)" by blast
  from characterize_Some [OF ch] obtain ro ri to ti d' where
    "call = InvCall ro ri to ti r tig region d'" by blast
  then have "max_inv_den_diff call = np_max (inv_den_diff (df call))"
    by (simp add: InvCall_def Let_def)
  with dd have m: "max_inv_den_diff call = Some (Max (set (inv_den_diff (df call))))"
    by (simp add: np_max_Max)
  from f(4,5) len rows dd m show ?thesis by blast
qed

theorem call_has_inverted_rows_witness:
  "scan_for_inv example_env example_region = Some (Inr (Some example_call))
   \<and> MIN_INV_KMER_RUN \<le> length (filter (\<lambda>r. STATE r = REV) (df example_call))
   \<and> max_inv_den_diff example_call = Some (Max (set (inv_den_diff (df example_call))))"
  using call_has_inverted_rows [OF example_scan] example_scan by blast

subsection \<open>A table with a single FWD run\<close>

lemma scan_iter_table:
  assumes "lift_region_to_qry e region_ref = Some region_tig"
      and "ref_kmers e region_ref = Some ref_kmer_count"
      and "ref_kmer_count \<noteq> []"
      and "Max (set (map snd ref_kmer_count)) \<le> MAX_REF_KMER_COUNT"
      and "d = get_smoothed_density e (tig_mer_stream e region_tig (is_rev region))
                 (set (map fst ref_kmer_count))"
  shows "scan_iter e region region_ref count0 =
           (if d \<noteq> [] then
              (case decide (rl_encoder d) (count0 + 1) of
                 ABANDONED \<Rightarrow> Return (Inr None)
               | FOUND \<Rightarrow> Break region_tig d (rl_encoder d)
               | EXPAND \<Rightarrow>
                   if region_len (expand_region e region_ref (map rl_state (rl_encoder d)))
                        = region_len region_ref
                   then Return (Inr None)
                   else Next (expand_region e region_ref (map rl_state (rl_encoder d)))
                          (count0 + 1))
            else Return (Inr None))"
proof -
  have nm: "\<not> MAX_REF_KMER_COUNT < Max (set (map snd ref_kmer_count))"
    using assms(4) by (simp only: not_less)
  show ?thesis
    using assms(1,2,3,5) nm by (simp add: scan_iter_def Let_def split: decision.splits)
qed

lemma rl_encoder_Nil: "rl_encoder d = [] \<longleftrightarrow> d = []"
proof (cases d)
  case Nil
  then show ?thesis by simp
next
  case (Cons r rs)
  have "rl_run s c p q xs \<noteq> []" for s c p q and xs :: "'a row_scheme list"
    by (induction xs arbitrary: s c p q) simp_all
  with Cons show ?thesis by simp
qed

lemma fwd_rl: "rl_encoder fwd_table = [(FWD, 2000, 0, 1999)]"
  by (simp add: fwd_table_def rl_encoder_rows_last)

lemma fwd_table_nonempty: "fwd_table \<noteq> []"
  by (simp add: fwd_table_def run_rows_Nil)

text \<open>
  Claim C6, at a search region that is the whole chromosome (\<open>chr1:0-5000\<close>) on the first
  iteration: the table has the single run FWD and the expansion count is 1, below
  \<^verbatim>\<open>MIN_EXP_COUNT\<close>; the expansion cannot enlarge the region, and the scan returns no call
  in this iteration instead of going on.
\<close>

theorem single_fwd_run_at_limit_counterexample:
  "lift_region_to_qry whole_chrom_env (Region ''chr1'' 0 5000) = Some (Region ''tig1'' 0 5000)
   \<and> get_smoothed_density whole_chrom_env
        (tig_mer_stream whole_chrom_env (Region ''tig1'' 0 5000) False) {5, 6} = fwd_table
   \<and> rl_encoder fwd_table = [(FWD, 2000, 0, 1999)]
   \<and> (0::nat) + 1 < MIN_EXP_COUNT
   \<and> expand_region whole_chrom_env (Region ''chr1'' 0 5000) [FWD] = Region ''chr1'' 0 5000
   \<and> scan_iter whole_chrom_env (Region ''chr1'' 0 5000) (Region ''chr1'' 0 5000) 0
        = Return (Inr None)
   \<and> scan_for_inv whole_chrom_env (Region ''chr1'' 0 5000) = Some (Inr None)"
proof -
  have e: "expand_region whole_chrom_env (Region ''chr1'' 0 5000) [FWD] = Region ''chr1'' 0 5000"
    by (simp add: expand_region_def expand_def expand_balance_def np_int32_def trunc_def
          EXPAND_FACTOR_def region_len_def Region_def whole_chrom_env_def fwd_env_def
          example_env_def Let_def)
  have l: "lift_region_to_qry whole_chrom_env (Region ''chr1'' 0 5000)
             = Some (Region ''tig1'' 0 5000)"
    and k: "ref_kmers whole_chrom_env (Region ''chr1'' 0 5000) = Some [(5, 1), (6, 2)]"
    and m: "Max (set (map snd [(5, 1), (6, 2 :: nat)])) \<le> MAX_REF_KMER_COUNT"
    and t: "fwd_table = get_smoothed_density whole_chrom_env
              (tig_mer_stream whole_chrom_env (Region ''tig1'' 0 5000)
                 (is_rev (Region ''chr1'' 0 5000)))
              (set (map fst [(5, 1), (6, 2 :: nat)]))"
    by (simp_all add: whole_chrom_env_def fwd_env_def example_env_def Region_def
          MAX_REF_KMER_COUNT_def)
  note ne = fwd_table_nonempty
  have dc: "decide [(FWD, 2000, 0, 1999)] (0 + 1) = EXPAND"
    by (simp add: decide_def rl_state_def MIN_EXP_COUNT_def)
  have ms: "map rl_state [(FWD, 2000, 0, 1999)] = [FWD]" by (simp add: rl_state_def)
  have i: "scan_iter whole_chrom_env (Region ''chr1'' 0 5000) (Region ''chr1'' 0 5000) 0
        = Return (Inr None)"
  proof -
    have kn: "[(5, 1), (6, 2 :: nat)] \<noteq> ([] :: (kmer \<times> nat) list)" by simp
    show ?thesis
      unfolding scan_iter_table [OF l k kn m t, of 0] fwd_rl dc ms e
      by (simp add: ne)
  qed
  have x: "expand (Region ''chr1'' 0 5000) INITIAL_EXPAND 0
             (df_fai whole_chrom_env (chrom (Region ''chr1'' 0 5000))) True (5 / 10)
           = Region ''chr1'' 0 5000"
    by (simp add: expand_def INITIAL_EXPAND_def trunc_def Region_def whole_chrom_env_def
          fwd_env_def example_env_def Let_def)
  have s: "scan_for_inv whole_chrom_env (Region ''chr1'' 0 5000) = Some (Inr None)"
    unfolding scan_for_inv_def Let_def x by (rule scan_loop_Return [OF i])
  have o: "lift_region_to_qry whole_chrom_env (Region ''chr1'' 0 5000) = Some (Region ''tig1'' 0 5000)
   \<and> get_smoothed_density whole_chrom_env
        (tig_mer_stream whole_chrom_env (Region ''tig1'' 0 5000) False) {5, 6} = fwd_table
   \<and> (0::nat) + 1 < MIN_EXP_COUNT"
    by (simp add: whole_chrom_env_def fwd_env_def example_env_def Region_def MIN_EXP_COUNT_def)
  from o fwd_rl e i s show ?thesis by blast
qed

text \<open>
  Claim C6, amended. When the table of an iteration has a single run, of state FWD: with the
  expansion count (the number of the iteration, from 1) at \<^verbatim>\<open>MIN_EXP_COUNT\<close> or above, the
  scan returns no call; below it, the region is expanded by \<open>np.int32(len * 1.5)\<close> with
  balance 0.5, and the scan goes on with the expanded region and the count of this iteration
  if the length has changed, and returns no call if it has not.
\<close>

theorem single_fwd_run_policy:
  assumes "lift_region_to_qry e region_ref = Some region_tig"
      and "ref_kmers e region_ref = Some ref_kmer_count"
      and "ref_kmer_count \<noteq> []"
      and "Max (set (map snd ref_kmer_count)) \<le> MAX_REF_KMER_COUNT"
      and "d = get_smoothed_density e (tig_mer_stream e region_tig (is_rev region))
                 (set (map fst ref_kmer_count))"
      and "rl_encoder d = [rec]"
      and "rl_state rec = FWD"
      and "region_ref' = expand region_ref (np_int32 (of_int (region_len region_ref) * EXPAND_FACTOR))
                           0 (df_fai e (chrom region_ref)) True (5 / 10)"
  shows "(MIN_EXP_COUNT \<le> count0 + 1 \<longrightarrow>
            scan_iter e region region_ref count0 = Return (Inr None)
          \<and> scan_loop e region region_ref count0 = Some (Inr None))
       \<and> (count0 + 1 < MIN_EXP_COUNT \<longrightarrow>
            scan_iter e region region_ref count0 =
              (if region_len region_ref' = region_len region_ref then Return (Inr None)
               else Next region_ref' (count0 + 1))
          \<and> scan_loop e region region_ref count0 =
              (if region_len region_ref' = region_len region_ref then Some (Inr None)
               else scan_loop e region region_ref' (count0 + 1)))"
proof -
  from assms(6) have ne: "d \<noteq> []" using rl_encoder_Nil [of d] by simp
  have x: "expand_region e region_ref (map rl_state (rl_encoder d)) = region_ref'"
    unfolding assms(6,8) by (simp add: expand_region_def expand_balance_def Let_def)
  note t = scan_iter_table [OF assms(1-5), of count0, unfolded x]
  have a: "MIN_EXP_COUNT \<le> count0 + 1 \<Longrightarrow> decide (rl_encoder d) (count0 + 1) = ABANDONED"
    unfolding assms(6) using assms(7) by (simp add: decide_def Let_def)
  have b: "count0 + 1 < MIN_EXP_COUNT \<Longrightarrow> decide (rl_encoder d) (count0 + 1) = EXPAND"
    unfolding assms(6) using assms(7) by (simp add: decide_def Let_def)
  show ?thesis
  proof (intro conjI impI)
    assume m: "MIN_EXP_COUNT \<le> count0 + 1"
    with t ne a show r: "scan_iter e region region_ref count0 = Return (Inr None)" by simp
    from scan_loop_Return [OF r] show "scan_loop e region region_ref count0 = Some (Inr None)" .
  next
    assume m: "count0 + 1 < MIN_EXP_COUNT"
    with t ne b show r: "scan_iter e region region_ref count0 =
              (if region_len region_ref' = region_len region_ref then Return (Inr None)
               else Next region_ref' (count0 + 1))" by simp
    show "scan_loop e region region_ref count0 =
              (if region_len region_ref' = region_len region_ref then Some (Inr None)
               else scan_loop e region region_ref' (count0 + 1))"
      by (subst scan_loop.simps) (simp add: r)
  qed
qed

theorem single_fwd_run_policy_witness:
  "rl_encoder fwd_table = [(FWD, 2000, 0, 1999)]
   \<and> scan_iter fwd_env example_region (Region ''chr1'' 8000 13000) 2 = Return (Inr None)
   \<and> scan_loop fwd_env example_region (Region ''chr1'' 8000 13000) 2 = Some (Inr None)
   \<and> region_len (Region ''chr1'' 4250 16750) \<noteq> region_len (Region ''chr1'' 8000 13000)
   \<and> scan_iter fwd_env example_region (Region ''chr1'' 8000 13000) 0
        = Next (Region ''chr1'' 4250 16750) 1"
proof -
  have l: "lift_region_to_qry fwd_env (Region ''chr1'' 8000 13000)
             = Some (Region ''tig1'' 1000 6000)"
    and k: "ref_kmers fwd_env (Region ''chr1'' 8000 13000) = Some [(5, 1), (6, 2)]"
    and m: "Max (set (map snd [(5, 1), (6, 2 :: nat)])) \<le> MAX_REF_KMER_COUNT"
    and t: "fwd_table = get_smoothed_density fwd_env
              (tig_mer_stream fwd_env (Region ''tig1'' 1000 6000) (is_rev example_region))
              (set (map fst [(5, 1), (6, 2 :: nat)]))"
    by (simp_all add: fwd_env_def example_env_def Region_def MAX_REF_KMER_COUNT_def)
  have kn: "[(5, 1), (6, 2 :: nat)] \<noteq> ([] :: (kmer \<times> nat) list)" by simp
  have st: "rl_state (FWD, 2000, 0, 1999) = FWD" by (simp add: rl_state_def)
  have x: "Region ''chr1'' 4250 16750 =
             expand (Region ''chr1'' 8000 13000)
               (np_int32 (of_int (region_len (Region ''chr1'' 8000 13000)) * EXPAND_FACTOR))
               0 (df_fai fwd_env (chrom (Region ''chr1'' 8000 13000))) True (5 / 10)"
    by (simp add: expand_def np_int32_def trunc_def EXPAND_FACTOR_def region_len_def Region_def
          fwd_env_def example_env_def Let_def)
  have n: "region_len (Region ''chr1'' 4250 16750) \<noteq> region_len (Region ''chr1'' 8000 13000)"
    by (simp add: region_len_def Region_def)
  have c2: "MIN_EXP_COUNT \<le> (2::nat) + 1" and c0: "(0::nat) + 1 < MIN_EXP_COUNT"
    by (simp_all add: MIN_EXP_COUNT_def)
  from single_fwd_run_policy [OF l k kn m t fwd_rl st x, of 2] c2
  have a: "scan_iter fwd_env example_region (Region ''chr1'' 8000 13000) 2 = Return (Inr None)
         \<and> scan_loop fwd_env example_region (Region ''chr1'' 8000 13000) 2 = Some (Inr None)"
    by blast
  from single_fwd_run_policy [OF l k kn m t fwd_rl st x, of 0] c0
  have "scan_iter fwd_env example_region (Region ''chr1'' 8000 13000) 0 =
          (if region_len (Region ''chr1'' 4250 16750) = region_len (Region ''chr1'' 8000 13000)
           then Return (Inr None) else Next (Region ''chr1'' 4250 16750) (0 + 1))"
    by blast
  with n have b: "scan_iter fwd_env example_region (Region ''chr1'' 8000 13000) 0
        = Next (Region ''chr1'' 4250 16750) 1"
    by simp
  from fwd_rl a n b show ?thesis by blast
qed

subsection \<open>Expansion and termination\<close>
















subsection \<open>Rejections\<close>

lemma characterize_rejects:
  "\<not> list_ex (\<lambda>rec. rl_state rec = REV) state_rl \<Longrightarrow>
     characterize e flag region_ref region_tig d state_rl = Inr None"
  "list_ex (\<lambda>rec. rl_state rec = REV) state_rl \<Longrightarrow>
   Max (set (map rl_count (filter (\<lambda>rec. rl_state rec = REV) state_rl))) < MIN_INV_KMER_RUN \<Longrightarrow>
     characterize e flag region_ref region_tig d state_rl = Inr None"
  "list_ex (\<lambda>rec. rl_state rec = REV) state_rl \<Longrightarrow>
   MIN_INV_KMER_RUN \<le> Max (set (map rl_count (filter (\<lambda>rec. rl_state rec = REV) state_rl))) \<Longrightarrow>
   rl_state (hd state_rl) \<noteq> FWD \<or> rl_state (last state_rl) \<noteq> FWD \<Longrightarrow>
     characterize e flag region_ref region_tig d state_rl = Inl RuntimeError"
  by (simp_all add: characterize_def Let_def not_less [symmetric] del: not_less)

lemma characterize_disproportion:
  assumes "list_ex (\<lambda>rec. rl_state rec = REV) state_rl"
      and "MIN_INV_KMER_RUN \<le> Max (set (map rl_count (filter (\<lambda>rec. rl_state rec = REV) state_rl)))"
      and "rl_state (hd state_rl) = FWD" "rl_state (last state_rl) = FWD" "2 \<le> length state_rl"
      and "lift_region_to_sub e (tig_outer_of e region_tig state_rl) = Some ref_outer"
      and "of_int (region_len ref_outer)
             < MIN_TIG_REF_PROP * of_int (region_len (tig_outer_of e region_tig state_rl))
         \<or> of_int (region_len (tig_outer_of e region_tig state_rl))
             < MIN_TIG_REF_PROP * of_int (region_len ref_outer)"
  shows "characterize e flag region_ref region_tig d state_rl = Inr None"
proof -
  from assms(2) have m: "\<not> Max (set (map rl_count (filter (\<lambda>rec. rl_state rec = REV) state_rl)))
                           < MIN_INV_KMER_RUN"
    by (simp only: not_less)
  from assms(5) have l: "\<not> length state_rl < 2" by simp
  show ?thesis
    unfolding characterize_def Let_def
    using assms(1,3,4,6,7) m l by (auto simp: mult.commute)
qed

text \<open>
  The rejections of \<^verbatim>\<open>scan_for_inv\<close> that return no call: a failed lift of the search
  region onto the contig, no reference k-mer counts (\<^verbatim>\<open>None\<close> or empty), a k-mer count above
  \<^verbatim>\<open>MAX_REF_KMER_COUNT\<close>, an empty smoothed table, a single FWD run at
  \<^verbatim>\<open>MIN_EXP_COUNT\<close> expansions, an expansion that leaves the length unchanged, no REV run,
  a longest REV run below \<^verbatim>\<open>MIN_INV_KMER_RUN\<close>, a failed proportion check. An iteration
  of the loop never returns anything else. The check after the loop that the first and the
  last run are FWD raises \<^verbatim>\<open>RuntimeError\<close> when it fails.
\<close>

theorem rejections_return_no_call:
  "(lift_region_to_qry e region_ref = None
      \<longrightarrow> scan_loop e region region_ref count0 = Some (Inr None))
   \<and> (lift_region_to_qry e region_ref = Some region_tig
       \<and> (ref_kmers e region_ref = None \<or> ref_kmers e region_ref = Some [])
      \<longrightarrow> scan_loop e region region_ref count0 = Some (Inr None))
   \<and> (lift_region_to_qry e region_ref = Some region_tig
       \<and> ref_kmers e region_ref = Some ref_kmer_count \<and> ref_kmer_count \<noteq> []
       \<and> MAX_REF_KMER_COUNT < Max (set (map snd ref_kmer_count))
      \<longrightarrow> scan_loop e region region_ref count0 = Some (Inr None))
   \<and> (lift_region_to_qry e region_ref = Some region_tig
       \<and> ref_kmers e region_ref = Some ref_kmer_count \<and> ref_kmer_count \<noteq> []
       \<and> Max (set (map snd ref_kmer_count)) \<le> MAX_REF_KMER_COUNT
       \<and> get_smoothed_density e (tig_mer_stream e region_tig (is_rev region))
            (set (map fst ref_kmer_count)) = []
      \<longrightarrow> scan_loop e region region_ref count0 = Some (Inr None))
   \<and> (lift_region_to_qry e region_ref = Some region_tig
       \<and> ref_kmers e region_ref = Some ref_kmer_count \<and> ref_kmer_count \<noteq> []
       \<and> Max (set (map snd ref_kmer_count)) \<le> MAX_REF_KMER_COUNT
       \<and> d = get_smoothed_density e (tig_mer_stream e region_tig (is_rev region))
                (set (map fst ref_kmer_count))
       \<and> rl_encoder d = [rec] \<and> rl_state rec = FWD \<and> MIN_EXP_COUNT \<le> count0 + 1
      \<longrightarrow> scan_loop e region region_ref count0 = Some (Inr None))
   \<and> (lift_region_to_qry e region_ref = Some region_tig
       \<and> ref_kmers e region_ref = Some ref_kmer_count \<and> ref_kmer_count \<noteq> []
       \<and> Max (set (map snd ref_kmer_count)) \<le> MAX_REF_KMER_COUNT
       \<and> d = get_smoothed_density e (tig_mer_stream e region_tig (is_rev region))
                (set (map fst ref_kmer_count))
       \<and> d \<noteq> [] \<and> decide (rl_encoder d) (count0 + 1) = EXPAND
       \<and> region_len (expand_region e region_ref (map rl_state (rl_encoder d)))
            = region_len region_ref
      \<longrightarrow> scan_loop e region region_ref count0 = Some (Inr None))
   \<and> (scan_iter e region region_ref count0 = Return res \<longrightarrow> res = Inr None)
   \<and> (scan_iter e region region_ref count0 = Break region_tig d state_rl
       \<and> \<not> list_ex (\<lambda>rec. rl_state rec = REV) state_rl
      \<longrightarrow> scan_loop e region region_ref count0 = Some (Inr None))
   \<and> (scan_iter e region region_ref count0 = Break region_tig d state_rl
       \<and> list_ex (\<lambda>rec. rl_state rec = REV) state_rl
       \<and> Max (set (map rl_count (filter (\<lambda>rec. rl_state rec = REV) state_rl)))
            < MIN_INV_KMER_RUN
      \<longrightarrow> scan_loop e region region_ref count0 = Some (Inr None))
   \<and> (scan_iter e region region_ref count0 = Break region_tig d state_rl
       \<and> list_ex (\<lambda>rec. rl_state rec = REV) state_rl
       \<and> MIN_INV_KMER_RUN
            \<le> Max (set (map rl_count (filter (\<lambda>rec. rl_state rec = REV) state_rl)))
       \<and> lift_region_to_sub e (tig_outer_of e region_tig state_rl) = Some ref_outer
       \<and> (of_int (region_len ref_outer)
             < MIN_TIG_REF_PROP * of_int (region_len (tig_outer_of e region_tig state_rl))
          \<or> of_int (region_len (tig_outer_of e region_tig state_rl))
             < MIN_TIG_REF_PROP * of_int (region_len ref_outer))
      \<longrightarrow> scan_loop e region region_ref count0 = Some (Inr None))
   \<and> (list_ex (\<lambda>rec. rl_state rec = REV) state_rl
       \<and> MIN_INV_KMER_RUN
            \<le> Max (set (map rl_count (filter (\<lambda>rec. rl_state rec = REV) state_rl)))
       \<and> (rl_state (hd state_rl) \<noteq> FWD \<or> rl_state (last state_rl) \<noteq> FWD)
      \<longrightarrow> characterize e region region_ref region_tig d state_rl = Inl RuntimeError)"
proof (intro conjI impI)
  assume "lift_region_to_qry e region_ref = None"
  then have "scan_iter e region region_ref count0 = Return (Inr None)"
    by (simp add: scan_iter_def)
  from scan_loop_Return [OF this]
  show "scan_loop e region region_ref count0 = Some (Inr None)" .
next
  assume "lift_region_to_qry e region_ref = Some region_tig
       \<and> (ref_kmers e region_ref = None \<or> ref_kmers e region_ref = Some [])"
  then have "scan_iter e region region_ref count0 = Return (Inr None)"
    by (auto simp: scan_iter_def)
  from scan_loop_Return [OF this]
  show "scan_loop e region region_ref count0 = Some (Inr None)" .
next
  assume "lift_region_to_qry e region_ref = Some region_tig
       \<and> ref_kmers e region_ref = Some ref_kmer_count \<and> ref_kmer_count \<noteq> []
       \<and> MAX_REF_KMER_COUNT < Max (set (map snd ref_kmer_count))"
  then have "scan_iter e region region_ref count0 = Return (Inr None)"
    by (simp add: scan_iter_def)
  from scan_loop_Return [OF this]
  show "scan_loop e region region_ref count0 = Some (Inr None)" .
next
  assume a: "lift_region_to_qry e region_ref = Some region_tig
       \<and> ref_kmers e region_ref = Some ref_kmer_count \<and> ref_kmer_count \<noteq> []
       \<and> Max (set (map snd ref_kmer_count)) \<le> MAX_REF_KMER_COUNT
       \<and> get_smoothed_density e (tig_mer_stream e region_tig (is_rev region))
            (set (map fst ref_kmer_count)) = []"
  then have h: "lift_region_to_qry e region_ref = Some region_tig"
    "ref_kmers e region_ref = Some ref_kmer_count" "ref_kmer_count \<noteq> []"
    "Max (set (map snd ref_kmer_count)) \<le> MAX_REF_KMER_COUNT"
    "[] = get_smoothed_density e (tig_mer_stream e region_tig (is_rev region))
            (set (map fst ref_kmer_count))"
    by simp_all
  have "scan_iter e region region_ref count0 = Return (Inr None)"
    unfolding scan_iter_table [OF h, of count0] by simp
  from scan_loop_Return [OF this]
  show "scan_loop e region region_ref count0 = Some (Inr None)" .
next
  assume a: "lift_region_to_qry e region_ref = Some region_tig
       \<and> ref_kmers e region_ref = Some ref_kmer_count \<and> ref_kmer_count \<noteq> []
       \<and> Max (set (map snd ref_kmer_count)) \<le> MAX_REF_KMER_COUNT
       \<and> d = get_smoothed_density e (tig_mer_stream e region_tig (is_rev region))
                (set (map fst ref_kmer_count))
       \<and> rl_encoder d = [rec] \<and> rl_state rec = FWD \<and> MIN_EXP_COUNT \<le> count0 + 1"
  then have h: "lift_region_to_qry e region_ref = Some region_tig"
    "ref_kmers e region_ref = Some ref_kmer_count" "ref_kmer_count \<noteq> []"
    "Max (set (map snd ref_kmer_count)) \<le> MAX_REF_KMER_COUNT"
    "d = get_smoothed_density e (tig_mer_stream e region_tig (is_rev region))
                (set (map fst ref_kmer_count))"
    and r: "rl_encoder d = [rec]" "rl_state rec = FWD" "MIN_EXP_COUNT \<le> count0 + 1"
    by blast+
  from r(1) have ne: "d \<noteq> []" using rl_encoder_Nil [of d] by simp
  from r have dc: "decide (rl_encoder d) (count0 + 1) = ABANDONED"
    by (simp add: decide_def Let_def)
  have "scan_iter e region region_ref count0 = Return (Inr None)"
    unfolding scan_iter_table [OF h, of count0] dc using ne by simp
  from scan_loop_Return [OF this]
  show "scan_loop e region region_ref count0 = Some (Inr None)" .
next
  assume a: "lift_region_to_qry e region_ref = Some region_tig
       \<and> ref_kmers e region_ref = Some ref_kmer_count \<and> ref_kmer_count \<noteq> []
       \<and> Max (set (map snd ref_kmer_count)) \<le> MAX_REF_KMER_COUNT
       \<and> d = get_smoothed_density e (tig_mer_stream e region_tig (is_rev region))
                (set (map fst ref_kmer_count))
       \<and> d \<noteq> [] \<and> decide (rl_encoder d) (count0 + 1) = EXPAND
       \<and> region_len (expand_region e region_ref (map rl_state (rl_encoder d)))
            = region_len region_ref"
  then have h: "lift_region_to_qry e region_ref = Some region_tig"
    "ref_kmers e region_ref = Some ref_kmer_count" "ref_kmer_count \<noteq> []"
    "Max (set (map snd ref_kmer_count)) \<le> MAX_REF_KMER_COUNT"
    "d = get_smoothed_density e (tig_mer_stream e region_tig (is_rev region))
                (set (map fst ref_kmer_count))"
    and r: "d \<noteq> []" "decide (rl_encoder d) (count0 + 1) = EXPAND"
    "region_len (expand_region e region_ref (map rl_state (rl_encoder d))) = region_len region_ref"
    by blast+
  from r have "scan_iter e region region_ref count0 = Return (Inr None)"
    unfolding scan_iter_table [OF h, of count0] by simp
  from scan_loop_Return [OF this]
  show "scan_loop e region region_ref count0 = Some (Inr None)" .
next
  assume "scan_iter e region region_ref count0 = Return res"
  from scan_iter_Return [OF this] show "res = Inr None" .
next
  assume a: "scan_iter e region region_ref count0 = Break region_tig d state_rl
       \<and> \<not> list_ex (\<lambda>rec. rl_state rec = REV) state_rl"
  then have b: "scan_iter e region region_ref count0 = Break region_tig d state_rl" by blast
  from a characterize_rejects(1)
  have "characterize e region region_ref region_tig d state_rl = Inr None" by blast
  with scan_loop_Break [OF b]
  show "scan_loop e region region_ref count0 = Some (Inr None)" by simp
next
  assume a: "scan_iter e region region_ref count0 = Break region_tig d state_rl
       \<and> list_ex (\<lambda>rec. rl_state rec = REV) state_rl
       \<and> Max (set (map rl_count (filter (\<lambda>rec. rl_state rec = REV) state_rl)))
            < MIN_INV_KMER_RUN"
  then have b: "scan_iter e region region_ref count0 = Break region_tig d state_rl" by blast
  from a characterize_rejects(2)
  have "characterize e region region_ref region_tig d state_rl = Inr None" by blast
  with scan_loop_Break [OF b]
  show "scan_loop e region region_ref count0 = Some (Inr None)" by simp
next
  assume a: "scan_iter e region region_ref count0 = Break region_tig d state_rl
       \<and> list_ex (\<lambda>rec. rl_state rec = REV) state_rl
       \<and> MIN_INV_KMER_RUN
            \<le> Max (set (map rl_count (filter (\<lambda>rec. rl_state rec = REV) state_rl)))
       \<and> lift_region_to_sub e (tig_outer_of e region_tig state_rl) = Some ref_outer
       \<and> (of_int (region_len ref_outer)
             < MIN_TIG_REF_PROP * of_int (region_len (tig_outer_of e region_tig state_rl))
          \<or> of_int (region_len (tig_outer_of e region_tig state_rl))
             < MIN_TIG_REF_PROP * of_int (region_len ref_outer))"
  then have b: "scan_iter e region region_ref count0 = Break region_tig d state_rl" by blast
  from scan_iter_Break [OF b] have dec: "decide state_rl (count0 + 1) = FOUND" by blast
  from decide_FOUND [OF dec] have s: "2 \<le> length state_rl" "rl_state (hd state_rl) = FWD"
    "rl_state (last state_rl) = FWD" by simp_all
  from a have c: "list_ex (\<lambda>rec. rl_state rec = REV) state_rl"
    "MIN_INV_KMER_RUN
            \<le> Max (set (map rl_count (filter (\<lambda>rec. rl_state rec = REV) state_rl)))"
    "lift_region_to_sub e (tig_outer_of e region_tig state_rl) = Some ref_outer"
    "of_int (region_len ref_outer)
             < MIN_TIG_REF_PROP * of_int (region_len (tig_outer_of e region_tig state_rl))
          \<or> of_int (region_len (tig_outer_of e region_tig state_rl))
             < MIN_TIG_REF_PROP * of_int (region_len ref_outer)"
    by blast+
  from characterize_disproportion [OF c(1,2) s(2,3,1) c(3,4)] scan_loop_Break [OF b]
  show "scan_loop e region region_ref count0 = Some (Inr None)" by simp
next
  assume a: "list_ex (\<lambda>rec. rl_state rec = REV) state_rl
       \<and> MIN_INV_KMER_RUN
            \<le> Max (set (map rl_count (filter (\<lambda>rec. rl_state rec = REV) state_rl)))
       \<and> (rl_state (hd state_rl) \<noteq> FWD \<or> rl_state (last state_rl) \<noteq> FWD)"
  with characterize_rejects(3)
  show "characterize e region region_ref region_tig d state_rl = Inl RuntimeError" by blast
qed

lemma table_env_iter:
  assumes "tbl \<noteq> []" "decide (rl_encoder tbl) (c + 1) = FOUND"
  shows "scan_iter (example_env\<lparr>get_smoothed_density := (\<lambda>s k. tbl)\<rparr>) example_region
           (Region ''chr1'' 8000 13000) c
         = Break (Region ''tig1'' 1000 6000) tbl (rl_encoder tbl)"
proof -
  let ?e = "example_env\<lparr>get_smoothed_density := (\<lambda>s k. tbl)\<rparr>"
  have l: "lift_region_to_qry ?e (Region ''chr1'' 8000 13000) = Some (Region ''tig1'' 1000 6000)"
    and k: "ref_kmers ?e (Region ''chr1'' 8000 13000) = Some [(5, 1), (6, 2)]"
    and m: "Max (set (map snd [(5, 1), (6, 2 :: nat)])) \<le> MAX_REF_KMER_COUNT"
    and t: "tbl = get_smoothed_density ?e
              (tig_mer_stream ?e (Region ''tig1'' 1000 6000) (is_rev example_region))
              (set (map fst [(5, 1), (6, 2 :: nat)]))"
    by (simp_all add: example_env_def Region_def MAX_REF_KMER_COUNT_def)
  have kn: "[(5, 1), (6, 2 :: nat)] \<noteq> ([] :: (kmer \<times> nat) list)" by simp
  show ?thesis
    unfolding scan_iter_table [OF l k kn m t, of c] assms(2) using assms(1) by simp
qed

lemma no_rev_rl:
  "rl_encoder no_rev_table = [(FWD, 900, 0, 899), (FWDREV, 200, 900, 1099), (FWD, 900, 1100, 1999)]"
  by (simp add: no_rev_table_def rl_encoder_rows rl_run_rows_other rl_run_rows_last)

lemma short_rev_rl:
  "rl_encoder short_rev_table = [(FWD, 1000, 0, 999), (REV, 50, 1000, 1049), (FWD, 1000, 1050, 2049)]"
  by (simp add: short_rev_table_def rl_encoder_rows rl_run_rows_other rl_run_rows_last)

lemma no_rev_iter:
  "scan_iter (example_env\<lparr>get_smoothed_density := (\<lambda>s k. no_rev_table)\<rparr>) example_region
     (Region ''chr1'' 8000 13000) 0
   = Break (Region ''tig1'' 1000 6000) no_rev_table
       [(FWD, 900, 0, 899), (FWDREV, 200, 900, 1099), (FWD, 900, 1100, 1999)]"
proof -
  have ne: "no_rev_table \<noteq> []" by (simp add: no_rev_table_def run_rows_Nil)
  have dc: "decide (rl_encoder no_rev_table) (0 + 1) = FOUND"
    unfolding no_rev_rl by (simp add: decide_def rl_state_def)
  from table_env_iter [OF ne dc] show ?thesis by (simp only: no_rev_rl)
qed

lemma short_rev_iter:
  "scan_iter (example_env\<lparr>get_smoothed_density := (\<lambda>s k. short_rev_table)\<rparr>) example_region
     (Region ''chr1'' 8000 13000) 0
   = Break (Region ''tig1'' 1000 6000) short_rev_table
       [(FWD, 1000, 0, 999), (REV, 50, 1000, 1049), (FWD, 1000, 1050, 2049)]"
proof -
  have ne: "short_rev_table \<noteq> []" by (simp add: short_rev_table_def run_rows_Nil)
  have dc: "decide (rl_encoder short_rev_table) (0 + 1) = FOUND"
    unfolding short_rev_rl by (simp add: decide_def rl_state_def)
  from table_env_iter [OF ne dc] show ?thesis by (simp only: short_rev_rl)
qed

theorem rejections_return_no_call_examples:
  "scan_loop (example_env\<lparr>lift_region_to_qry := (\<lambda>r. None)\<rparr>) example_region
      (Region ''chr1'' 8000 13000) 0 = Some (Inr None)
   \<and> scan_loop (example_env\<lparr>ref_kmers := (\<lambda>r. None)\<rparr>) example_region
      (Region ''chr1'' 8000 13000) 0 = Some (Inr None)
   \<and> scan_loop (example_env\<lparr>ref_kmers := (\<lambda>r. Some [])\<rparr>) example_region
      (Region ''chr1'' 8000 13000) 0 = Some (Inr None)
   \<and> scan_loop (example_env\<lparr>ref_kmers := (\<lambda>r. Some [(5, 101)])\<rparr>) example_region
      (Region ''chr1'' 8000 13000) 0 = Some (Inr None)
   \<and> scan_loop (example_env\<lparr>get_smoothed_density := (\<lambda>s k. [])\<rparr>) example_region
      (Region ''chr1'' 8000 13000) 0 = Some (Inr None)
   \<and> scan_loop fwd_env example_region (Region ''chr1'' 8000 13000) 2 = Some (Inr None)
   \<and> scan_loop whole_chrom_env (Region ''chr1'' 0 5000) (Region ''chr1'' 0 5000) 0
      = Some (Inr None)
   \<and> scan_loop (example_env\<lparr>get_smoothed_density := (\<lambda>s k. no_rev_table)\<rparr>) example_region
      (Region ''chr1'' 8000 13000) 0 = Some (Inr None)
   \<and> scan_loop (example_env\<lparr>get_smoothed_density := (\<lambda>s k. short_rev_table)\<rparr>) example_region
      (Region ''chr1'' 8000 13000) 0 = Some (Inr None)
   \<and> scan_loop short_lift_env example_region (Region ''chr1'' 8000 13000) 0 = Some (Inr None)
   \<and> characterize example_env example_region (Region ''chr1'' 8000 13000)
        (Region ''tig1'' 1000 6000) example_table [(REV, 100, 0, 99), (FWD, 1, 100, 100)]
      = Inl RuntimeError"
proof -
  let ?R = "Region ''chr1'' 8000 13000"
  let ?T = "Region ''tig1'' 1000 6000"
  let ?kc = "[(5, 1), (6, 2)] :: (kmer \<times> nat) list"
  note t = rejections_return_no_call
  have kn: "?kc \<noteq> []" by simp
  have km: "Max (set (map snd ?kc)) \<le> MAX_REF_KMER_COUNT"
    by (simp add: MAX_REF_KMER_COUNT_def)
  \<comment> \<open>the lift fails\<close>
  let ?e1 = "example_env\<lparr>lift_region_to_qry := (\<lambda>r. None)\<rparr>"
  have "lift_region_to_qry ?e1 ?R = None" by simp
  with t [where e = ?e1 and region_ref = ?R and region = example_region and ?count0.0 = 0, THEN conjunct1]
  have w1: "scan_loop ?e1 example_region ?R 0 = Some (Inr None)" by blast
  \<comment> \<open>no reference k-mers\<close>
  let ?e2 = "example_env\<lparr>ref_kmers := (\<lambda>r. None)\<rparr>"
  have "lift_region_to_qry ?e2 ?R = Some ?T" "ref_kmers ?e2 ?R = None"
    by (simp_all add: example_env_def Region_def)
  with t [where e = ?e2 and region_ref = ?R and region = example_region and ?count0.0 = 0
      and region_tig = ?T,
      THEN conjunct2, THEN conjunct1]
  have w2: "scan_loop ?e2 example_region ?R 0 = Some (Inr None)" by blast
  let ?e3 = "example_env\<lparr>ref_kmers := (\<lambda>r. Some [])\<rparr>"
  have "lift_region_to_qry ?e3 ?R = Some ?T" "ref_kmers ?e3 ?R = Some []"
    by (simp_all add: example_env_def Region_def)
  with t [where e = ?e3 and region_ref = ?R and region = example_region and ?count0.0 = 0
      and region_tig = ?T,
      THEN conjunct2, THEN conjunct1]
  have w3: "scan_loop ?e3 example_region ?R 0 = Some (Inr None)" by blast
  \<comment> \<open>a repeated k-mer\<close>
  let ?e4 = "example_env\<lparr>ref_kmers := (\<lambda>r. Some [(5, 101)])\<rparr>"
  have "lift_region_to_qry ?e4 ?R = Some ?T" "ref_kmers ?e4 ?R = Some [(5, 101)]"
    "[(5, 101)] \<noteq> ([] :: (kmer \<times> nat) list)"
    "MAX_REF_KMER_COUNT < Max (set (map snd [(5 :: kmer, 101 :: nat)]))"
    by (simp_all add: example_env_def Region_def MAX_REF_KMER_COUNT_def)
  with t [where e = ?e4 and region_ref = ?R and region = example_region and ?count0.0 = 0
      and region_tig = ?T and ref_kmer_count = "[(5, 101)]",
      THEN conjunct2, THEN conjunct2, THEN conjunct1]
  have w4: "scan_loop ?e4 example_region ?R 0 = Some (Inr None)" by blast
  \<comment> \<open>an empty table\<close>
  let ?e5 = "example_env\<lparr>get_smoothed_density := (\<lambda>s k. [])\<rparr>"
  have "lift_region_to_qry ?e5 ?R = Some ?T" "ref_kmers ?e5 ?R = Some ?kc"
    "get_smoothed_density ?e5 (tig_mer_stream ?e5 ?T (is_rev example_region))
       (set (map fst ?kc)) = []"
    by (simp_all add: example_env_def Region_def)
  with kn km t [where e = ?e5 and region_ref = ?R and region = example_region and ?count0.0 = 0
      and region_tig = ?T and ref_kmer_count = ?kc,
      THEN conjunct2, THEN conjunct2, THEN conjunct2, THEN conjunct1]
  have w5: "scan_loop ?e5 example_region ?R 0 = Some (Inr None)" by blast
  \<comment> \<open>a single FWD run on the third iteration\<close>
  have "lift_region_to_qry fwd_env ?R = Some ?T" "ref_kmers fwd_env ?R = Some ?kc"
    "fwd_table = get_smoothed_density fwd_env (tig_mer_stream fwd_env ?T (is_rev example_region))
       (set (map fst ?kc))"
    "rl_state (FWD, 2000, 0, 1999) = FWD" "MIN_EXP_COUNT \<le> 2 + 1"
    by (simp_all add: fwd_env_def example_env_def Region_def rl_state_def MIN_EXP_COUNT_def)
  with kn km fwd_rl t [where e = fwd_env and region_ref = ?R and region = example_region
      and ?count0.0 = 2 and region_tig = ?T and ref_kmer_count = ?kc and d = fwd_table
      and rec = "(FWD, 2000, 0, 1999)",
      THEN conjunct2, THEN conjunct2, THEN conjunct2, THEN conjunct2, THEN conjunct1]
  have w6: "scan_loop fwd_env example_region ?R 2 = Some (Inr None)" by blast
  \<comment> \<open>no growth\<close>
  let ?W = "Region ''chr1'' 0 5000"
  have ms: "map rl_state (rl_encoder fwd_table) = [FWD]"
    unfolding fwd_rl by (simp add: rl_state_def)
  have ex: "expand_region whole_chrom_env ?W [FWD] = ?W"
    by (simp add: expand_region_def expand_def expand_balance_def np_int32_def trunc_def
          EXPAND_FACTOR_def region_len_def Region_def whole_chrom_env_def fwd_env_def
          example_env_def Let_def)
  have "lift_region_to_qry whole_chrom_env ?W = Some (Region ''tig1'' 0 5000)"
    "ref_kmers whole_chrom_env ?W = Some ?kc"
    "fwd_table = get_smoothed_density whole_chrom_env
       (tig_mer_stream whole_chrom_env (Region ''tig1'' 0 5000) (is_rev ?W)) (set (map fst ?kc))"
    "fwd_table \<noteq> []"
    "decide (rl_encoder fwd_table) (0 + 1) = EXPAND"
    "region_len (expand_region whole_chrom_env ?W (map rl_state (rl_encoder fwd_table)))
       = region_len ?W"
    unfolding ms ex unfolding fwd_rl
    by (simp_all add: whole_chrom_env_def fwd_env_def example_env_def Region_def
          fwd_table_nonempty
          decide_def rl_state_def MIN_EXP_COUNT_def)
  with kn km t [where e = whole_chrom_env and region_ref = ?W and region = ?W
      and ?count0.0 = 0 and region_tig = "Region ''tig1'' 0 5000" and ref_kmer_count = ?kc
      and d = fwd_table,
      THEN conjunct2, THEN conjunct2, THEN conjunct2, THEN conjunct2, THEN conjunct2,
      THEN conjunct1]
  have w7: "scan_loop whole_chrom_env ?W ?W 0 = Some (Inr None)" by blast
  \<comment> \<open>no REV run\<close>
  let ?e8 = "example_env\<lparr>get_smoothed_density := (\<lambda>s k. no_rev_table)\<rparr>"
  have "\<not> list_ex (\<lambda>rec. rl_state rec = REV) [(FWD, 900, 0, 899), (FWDREV, 200, 900, 1099), (FWD, 900, 1100, 1999)]"
    by (simp add: rl_state_def)
  with no_rev_iter t [where e = ?e8 and region_ref = ?R and region = example_region
      and ?count0.0 = 0 and region_tig = ?T and d = no_rev_table
      and state_rl = "[(FWD, 900, 0, 899), (FWDREV, 200, 900, 1099), (FWD, 900, 1100, 1999)]",
      THEN conjunct2, THEN conjunct2, THEN conjunct2, THEN conjunct2, THEN conjunct2,
      THEN conjunct2, THEN conjunct2, THEN conjunct1]
  have w8: "scan_loop ?e8 example_region ?R 0 = Some (Inr None)" by blast
  \<comment> \<open>a short REV run\<close>
  let ?e9 = "example_env\<lparr>get_smoothed_density := (\<lambda>s k. short_rev_table)\<rparr>"
  let ?srl = "[(FWD, 1000, 0, 999), (REV, 50, 1000, 1049), (FWD, 1000, 1050, 2049)] :: rl_record list"
  have "list_ex (\<lambda>rec. rl_state rec = REV) ?srl"
    "Max (set (map rl_count (filter (\<lambda>rec. rl_state rec = REV) ?srl))) < MIN_INV_KMER_RUN"
    by (simp_all add: rl_state_def rl_count_def MIN_INV_KMER_RUN_def)
  with short_rev_iter t [where e = ?e9 and region_ref = ?R and region = example_region
      and ?count0.0 = 0 and region_tig = ?T and d = short_rev_table and state_rl = ?srl,
      THEN conjunct2, THEN conjunct2, THEN conjunct2, THEN conjunct2, THEN conjunct2,
      THEN conjunct2, THEN conjunct2, THEN conjunct2, THEN conjunct1]
  have w9: "scan_loop ?e9 example_region ?R 0 = Some (Inr None)" by blast
  \<comment> \<open>a failed proportion check\<close>
  let ?rl = "[(FWD, 700, 0, 699), (FWDREV, 100, 700, 799), (REV, 500, 800, 1299),
        (FWDREV, 100, 1300, 1399), (FWD, 700, 1400, 2099)] :: rl_record list"
  have o: "tig_outer_of short_lift_env ?T ?rl = Region ''tig1'' 1700 2430"
    by (simp add: tig_outer_of_def short_lift_env_def example_env_def Region_def rl_pos_def
          rl_end_def)
  have "list_ex (\<lambda>rec. rl_state rec = REV) ?rl"
    "MIN_INV_KMER_RUN \<le> Max (set (map rl_count (filter (\<lambda>rec. rl_state rec = REV) ?rl)))"
    "lift_region_to_sub short_lift_env (tig_outer_of short_lift_env ?T ?rl)
       = Some (Region ''chr1'' 8700 8800)"
    "(of_int (region_len (Region ''chr1'' 8700 8800)) :: rat)
        < MIN_TIG_REF_PROP * of_int (region_len (tig_outer_of short_lift_env ?T ?rl))"
    unfolding o
    by (simp_all add: rl_state_def rl_count_def MIN_INV_KMER_RUN_def short_lift_env_def
          example_env_def Region_def region_len_def MIN_TIG_REF_PROP_def)
  with short_lift_iter t [where e = short_lift_env and region_ref = ?R and region = example_region
      and ?count0.0 = 0 and region_tig = ?T and d = example_table and state_rl = ?rl
      and ref_outer = "Region ''chr1'' 8700 8800",
      THEN conjunct2, THEN conjunct2, THEN conjunct2, THEN conjunct2, THEN conjunct2,
      THEN conjunct2, THEN conjunct2, THEN conjunct2, THEN conjunct2, THEN conjunct1]
  have w10: "scan_loop short_lift_env example_region ?R 0 = Some (Inr None)" by blast
  \<comment> \<open>the check after the loop\<close>
  let ?brl = "[(REV, 100, 0, 99), (FWD, 1, 100, 100)] :: rl_record list"
  have "list_ex (\<lambda>rec. rl_state rec = REV) ?brl"
    "MIN_INV_KMER_RUN \<le> Max (set (map rl_count (filter (\<lambda>rec. rl_state rec = REV) ?brl)))"
    "rl_state (hd ?brl) \<noteq> FWD"
    by (simp_all add: rl_state_def rl_count_def MIN_INV_KMER_RUN_def)
  with t [where e = example_env and region_ref = ?R and region = example_region
      and region_tig = ?T and d = example_table and state_rl = ?brl,
      THEN conjunct2, THEN conjunct2, THEN conjunct2, THEN conjunct2, THEN conjunct2,
      THEN conjunct2, THEN conjunct2, THEN conjunct2, THEN conjunct2, THEN conjunct2]
  have w11: "characterize example_env example_region ?R ?T example_table ?brl = Inl RuntimeError"
    by blast
  from w1 w2 w3 w4 w5 w6 w7 w8 w9 w10 w11 show ?thesis by blast
qed

subsection \<open>The lift back to the reference\<close>

lemma sub_lift_iter:
  "scan_iter (example_env\<lparr>lift_region_to_sub := f\<rparr>) example_region
     (Region ''chr1'' 8000 13000) 0 =
     Break (Region ''tig1'' 1000 6000) example_table
       [(FWD, 700, 0, 699), (FWDREV, 100, 700, 799), (REV, 500, 800, 1299),
        (FWDREV, 100, 1300, 1399), (FWD, 700, 1400, 2099)]"
  by (simp add: scan_iter_def example_env_def Region_def example_table_nonempty example_rl
        decide_def rl_state_def MAX_REF_KMER_COUNT_def MIN_EXP_COUNT_def Let_def)

lemma sub_lift_scan:
  "scan_for_inv (example_env\<lparr>lift_region_to_sub := f\<rparr>) example_region =
     Some (characterize (example_env\<lparr>lift_region_to_sub := f\<rparr>) example_region
             (Region ''chr1'' 8000 13000) (Region ''tig1'' 1000 6000) example_table
             [(FWD, 700, 0, 699), (FWDREV, 100, 700, 799), (REV, 500, 800, 1299),
              (FWDREV, 100, 1300, 1399), (FWD, 700, 1400, 2099)])"
proof -
  have e: "expand example_region INITIAL_EXPAND 0
             (df_fai (example_env\<lparr>lift_region_to_sub := f\<rparr>) (chrom example_region)) True (5 / 10)
          = Region ''chr1'' 8000 13000"
    by (simp add: expand_def example_region_def Region_def INITIAL_EXPAND_def trunc_def
          example_env_def Let_def)
  show ?thesis
    unfolding scan_for_inv_def Let_def e by (rule scan_loop_Break [OF sub_lift_iter])
qed

text \<open>
  Claim C5, at an alignment lift that cannot lift a contig region back to the reference
  (\<^verbatim>\<open>lift_region_to_sub\<close> returns \<^verbatim>\<open>None\<close>): the scan of the example leaves the loop in
  the FOUND state and passes the checks on the REV runs and on the flanks, and then raises,
  \<^verbatim>\<open>TypeError\<close> at \<^verbatim>\<open>len(region_ref_outer)\<close> when the outer region is not lifted and
  \<^verbatim>\<open>AttributeError\<close> at \<^verbatim>\<open>region_ref_inner.pos\<close> when only the inner one is not. The
  lift of the search region onto the contig is tested for \<^verbatim>\<open>None\<close> and returns no call;
  these two results are used as they come.
\<close>

theorem failed_lift_back_raises:
  "lift_region_to_sub no_sub_lift_env (Region ''tig1'' 1700 2430) = None
   \<and> scan_for_inv no_sub_lift_env example_region = Some (Inl TypeError)
   \<and> lift_region_to_sub no_inner_lift_env (Region ''tig1'' 1700 2430)
       = Some (Region ''chr1'' 8700 9430)
   \<and> lift_region_to_sub no_inner_lift_env (Region ''tig1'' 1800 2330) = None
   \<and> scan_for_inv no_inner_lift_env example_region = Some (Inl AttributeError)"
proof -
  let ?rl = "[(FWD, 700, 0, 699), (FWDREV, 100, 700, 799), (REV, 500, 800, 1299),
              (FWDREV, 100, 1300, 1399), (FWD, 700, 1400, 2099)] :: rl_record list"
  have c1: "characterize no_sub_lift_env example_region (Region ''chr1'' 8000 13000)
              (Region ''tig1'' 1000 6000) example_table ?rl = Inl TypeError"
    by (simp add: characterize_def tig_outer_of_def tig_inner_of_def no_sub_lift_env_def
          Region_def region_len_def rl_state_def rl_count_def rl_pos_def rl_end_def
          MIN_INV_KMER_RUN_def Let_def example_env_def)
  have c2: "characterize no_inner_lift_env example_region (Region ''chr1'' 8000 13000)
              (Region ''tig1'' 1000 6000) example_table ?rl = Inl AttributeError"
    by (simp add: characterize_def tig_outer_of_def tig_inner_of_def no_inner_lift_env_def
          Region_def region_len_def rl_state_def rl_count_def rl_pos_def rl_end_def
          MIN_INV_KMER_RUN_def MIN_TIG_REF_PROP_def Let_def example_env_def)
  have s1: "scan_for_inv no_sub_lift_env example_region = Some (Inl TypeError)"
    unfolding no_sub_lift_env_def sub_lift_scan c1 [unfolded no_sub_lift_env_def] ..
  have s2: "scan_for_inv no_inner_lift_env example_region = Some (Inl AttributeError)"
    unfolding no_inner_lift_env_def sub_lift_scan c2 [unfolded no_inner_lift_env_def] ..
  have l: "lift_region_to_sub no_sub_lift_env (Region ''tig1'' 1700 2430) = None
   \<and> lift_region_to_sub no_inner_lift_env (Region ''tig1'' 1700 2430)
       = Some (Region ''chr1'' 8700 9430)
   \<and> lift_region_to_sub no_inner_lift_env (Region ''tig1'' 1800 2330) = None"
    by (simp add: no_sub_lift_env_def no_inner_lift_env_def Region_def)
  from l s1 s2 show ?thesis by blast
qed

end
